theory Spec2Isabelle
  imports Main "HOL-Library.Multiset" "HOL-Library.Sublist"
    "HOL-Library.Char_ord" "HOL-Library.List_Lexorder"
begin

section \<open>kmz2geotiff: the conversion script as state-passing functions\<close>

text \<open>
  The script \<^verbatim>\<open>kmz2geotiff.py\<close> unpacks each KMZ archive beside it, reads the corner
  quadrilateral and the image reference from the KML descriptor, tags the image with four
  ground-control points, warps it to a GeoTIFF, and keeps three lists of archive base
  names (successful, failed, skipped).

  Python strings are modelled as \<^typ>\<open>string\<close>, the bytes of their UTF-8 encoding;
  white space is Python's, ASCII and beyond. Paths follow \<^verbatim>\<open>posixpath\<close>.
  Exceptions are values of the type \<open>error\<close>, one constructor for each exception
  class the script can meet, with the message as argument; a computation that may raise
  returns \<open>error + 'a\<close>, with \<open>Inl\<close> for the exception. The messages of the exceptions
  the script raises itself are those of the source; the interpreter's own messages (for
  an attribute of \<^verbatim>\<open>None\<close>, for an index out of range) are written without their
  quotation marks.
\<close>

subsection \<open>Exceptions\<close>

datatype error =
    Exception string
  | OSError string
  | BadZipFile string
  | ParseError string
  | AttributeError string
  | ValueError string
  | IndexError string
  | RuntimeError string
  | UnicodeEncodeError string

text \<open>\<^verbatim>\<open>str(e)\<close>, as formatted into the status line of a failed archive.\<close>

fun str_of :: "error \<Rightarrow> string" where
  "str_of (Exception m) = m"
| "str_of (OSError m) = m"
| "str_of (BadZipFile m) = m"
| "str_of (ParseError m) = m"
| "str_of (AttributeError m) = m"
| "str_of (ValueError m) = m"
| "str_of (IndexError m) = m"
| "str_of (RuntimeError m) = m"
| "str_of (UnicodeEncodeError m) = m"

definition and_then :: "error + 'a \<Rightarrow> ('a \<Rightarrow> error + 'b) \<Rightarrow> error + 'b" where
  "and_then r f = (case r of Inl e \<Rightarrow> Inl e | Inr x \<Rightarrow> f x)"

text \<open>A comprehension \<^verbatim>\<open>[f(x) for x in xs]\<close> whose body may raise: elements are
  evaluated left to right and the first exception ends the evaluation.\<close>

fun map_result :: "('a \<Rightarrow> error + 'b) \<Rightarrow> 'a list \<Rightarrow> error + 'b list" where
  "map_result f [] = Inr []"
| "map_result f (x # xs) =
     (case f x of
        Inl e \<Rightarrow> Inl e
      | Inr y \<Rightarrow> (case map_result f xs of Inl e \<Rightarrow> Inl e | Inr ys \<Rightarrow> Inr (y # ys)))"

subsection \<open>String methods\<close>

text \<open>
  The characters \<^verbatim>\<open>str.strip\<close> and \<^verbatim>\<open>str.split\<close> treat as white space are the code
  points 0x09-0x0D, 0x1C-0x20, 0x85, 0xA0, 0x1680, 0x2000-0x200A, 0x2028, 0x2029, 0x202F,
  0x205F and 0x3000. \<open>ws_len s\<close> is the number of bytes of the white-space character
  that \<open>s\<close> starts with in UTF-8, and 0 when it starts with none.
\<close>

definition ws_len :: "string \<Rightarrow> nat" where
  "ws_len s =
     (case map of_char (take 3 s) :: nat list of
        [] \<Rightarrow> 0
      | a # t \<Rightarrow>
          if (9 \<le> a \<and> a \<le> 13) \<or> (28 \<le> a \<and> a \<le> 32) then 1
          else (case t of
                  [] \<Rightarrow> 0
                | b # u \<Rightarrow>
                    if a = 194 \<and> (b = 133 \<or> b = 160) then 2
                    else (case u of
                            [] \<Rightarrow> 0
                          | c # _ \<Rightarrow>
                              if (a = 225 \<and> b = 154 \<and> c = 128)
                                 \<or> (a = 226 \<and> b = 128 \<and>
                                     ((128 \<le> c \<and> c \<le> 138) \<or> c = 168 \<or> c = 169 \<or> c = 175))
                                 \<or> (a = 226 \<and> b = 129 \<and> c = 159)
                                 \<or> (a = 227 \<and> b = 128 \<and> c = 128)
                              then 3 else 0)))"

text \<open>The same for the character that \<open>s\<close> ends with.\<close>

definition ws_len_end :: "string \<Rightarrow> nat" where
  "ws_len_end s =
     (let n = length s
      in if 1 \<le> n \<and> ws_len (drop (n - 1) s) = 1 then 1
         else if 2 \<le> n \<and> ws_len (drop (n - 2) s) = 2 then 2
         else if 3 \<le> n \<and> ws_len (drop (n - 3) s) = 3 then 3
         else 0)"

text \<open>\<^verbatim>\<open>s.strip()\<close>: white space is dropped at the front, then at the back (on the
  reversed string). \<open>skip\<close> counts the bytes still to drop of the character found.\<close>

fun lstrip_from :: "nat \<Rightarrow> string \<Rightarrow> string" where
  "lstrip_from skip [] = []"
| "lstrip_from skip (c # cs) =
     (if 0 < skip then lstrip_from (skip - 1) cs
      else if 0 < ws_len (c # cs) then lstrip_from (ws_len (c # cs) - 1) cs
      else c # cs)"

fun rstrip_rev :: "nat \<Rightarrow> string \<Rightarrow> string" where
  "rstrip_rev skip [] = []"
| "rstrip_rev skip (c # cs) =
     (if 0 < skip then rstrip_rev (skip - 1) cs
      else if 0 < ws_len_end (rev (take 3 (c # cs)))
      then rstrip_rev (ws_len_end (rev (take 3 (c # cs))) - 1) cs
      else c # cs)"

definition strip :: "string \<Rightarrow> string" where
  "strip s = rev (rstrip_rev 0 (rev (lstrip_from 0 s)))"

text \<open>\<^verbatim>\<open>s.split()\<close>: the maximal runs of non-whitespace characters. The first
  argument of \<open>split_acc\<close> is the current run, reversed; the second counts the bytes
  still to drop of the white-space character found.\<close>

fun split_acc :: "string \<Rightarrow> nat \<Rightarrow> string \<Rightarrow> string list" where
  "split_acc cur skip [] = (if cur = [] then [] else [rev cur])"
| "split_acc cur skip (c # cs) =
     (if 0 < skip then split_acc cur (skip - 1) cs
      else if 0 < ws_len (c # cs)
      then (if cur = [] then split_acc [] (ws_len (c # cs) - 1) cs
            else rev cur # split_acc [] (ws_len (c # cs) - 1) cs)
      else split_acc (c # cur) 0 cs)"

definition split_ws :: "string \<Rightarrow> string list" where
  "split_ws s = split_acc [] 0 s"

text \<open>\<^verbatim>\<open>s.split(d)\<close> for a one-character separator: always at least one field.\<close>

fun split_on :: "char \<Rightarrow> string \<Rightarrow> string list" where
  "split_on d [] = [[]]"
| "split_on d (c # cs) =
     (if c = d then [] # split_on d cs
      else (case split_on d cs of
              [] \<Rightarrow> [[c]]
            | t # ts \<Rightarrow> (c # t) # ts))"

text \<open>\<^verbatim>\<open>s.lower()\<close>, as far as the script asks: it only tests whether the lowered
  name ends in an ASCII suffix. The characters whose lower case is an ASCII letter are
  the ASCII capitals and the Kelvin sign U+212A (bytes E2 84 AA, lowered to \<^verbatim>\<open>k\<close>);
  every other byte is kept. Then \<^verbatim>\<open>s.endswith(t)\<close>, and \<^verbatim>\<open>s.replace(a, b)\<close> for
  single characters.\<close>

definition lower_char :: "char \<Rightarrow> char" where
  "lower_char c =
     (let n = (of_char c :: nat) in if 65 \<le> n \<and> n \<le> 90 then char_of (n + 32) else c)"

fun lower :: "string \<Rightarrow> string" where
  "lower (c1 # c2 # c3 # cs) =
     (if c1 = CHR 0xE2 \<and> c2 = CHR 0x84 \<and> c3 = CHR 0xAA then CHR ''k'' # lower cs
      else lower_char c1 # lower (c2 # c3 # cs))"
| "lower (c # cs) = lower_char c # lower cs"
| "lower [] = []"

definition endswith :: "string \<Rightarrow> string \<Rightarrow> bool" where
  "endswith s t = (length t \<le> length s \<and> drop (length s - length t) s = t)"

definition replace_char :: "char \<Rightarrow> char \<Rightarrow> string \<Rightarrow> string" where
  "replace_char a b s = map (\<lambda>c. if c = a then b else c) s"

subsection \<open>Paths (\<^verbatim>\<open>os.path\<close>)\<close>

type_synonym path = string

definition os_sep :: char where
  "os_sep = CHR ''/''"

text \<open>\<^verbatim>\<open>os.path.join(a, b)\<close>: an absolute \<open>b\<close> replaces \<open>a\<close>; otherwise the two are
  joined by one separator unless \<open>a\<close> is empty or already ends with one.\<close>

definition join :: "path \<Rightarrow> path \<Rightarrow> path" where
  "join a b =
     (if b \<noteq> [] \<and> hd b = os_sep then b
      else if a = [] \<or> last a = os_sep then a @ b
      else a @ [os_sep] @ b)"

text \<open>\<^verbatim>\<open>os.path.basename(p)\<close>: what follows the last separator.\<close>

definition basename :: "path \<Rightarrow> string" where
  "basename p = rev (takeWhile (\<lambda>c. c \<noteq> os_sep) (rev p))"

text \<open>\<^verbatim>\<open>s.rfind(c)\<close>: the index of the last occurrence, or -1.\<close>

definition rfind :: "char \<Rightarrow> string \<Rightarrow> int" where
  "rfind c s =
     (if c \<in> set s
      then int (length s) - 1 - int (length (takeWhile (\<lambda>x. x \<noteq> c) (rev s)))
      else - 1)"

text \<open>\<^verbatim>\<open>os.path.splitext(p)\<close>: split at the last dot of the last component, unless
  that component has only dots before it.\<close>

definition splitext :: "path \<Rightarrow> string \<times> string" where
  "splitext p =
     (let sepIndex = rfind os_sep p;
          dotIndex = rfind CHR ''.'' p
      in if dotIndex > sepIndex \<and>
            list_ex (\<lambda>c. c \<noteq> CHR ''.'')
              (take (nat (dotIndex - (sepIndex + 1))) (drop (nat (sepIndex + 1)) p))
         then (take (nat dotIndex) p, drop (nat dotIndex) p)
         else (p, []))"

text \<open>Lines 22-23, 35 and 83 of the script: the names derived from one archive path.
  \<open>out_folder\<close> is \<^verbatim>\<open>OUTPUT_FOLDER\<close>.\<close>

definition output_folder :: "path \<Rightarrow> path" where
  "output_folder script_dir = join script_dir ''Converted GeoTIFFs''"

definition log_file :: "path \<Rightarrow> path" where
  "log_file script_dir = join (output_folder script_dir) ''conversion_log.txt''"

definition base_of :: "path \<Rightarrow> string" where
  "base_of kmz_path = fst (splitext (basename kmz_path))"

definition out_tif_of :: "path \<Rightarrow> string \<Rightarrow> path" where
  "out_tif_of out_folder base = join out_folder (base @ ''.tif'')"

definition tmp_dir_of :: "path \<Rightarrow> string \<Rightarrow> path" where
  "tmp_dir_of out_folder base = join (join out_folder ''_temp'') base"

definition tmp_tif_of :: "path \<Rightarrow> string \<Rightarrow> path" where
  "tmp_tif_of out_folder base = join out_folder (base @ ''_with_gcps.tif'')"

subsection \<open>Coordinates and ground-control points\<close>

text \<open>
  Line 58:
  \<^verbatim>\<open>coords = [tuple(map(float, c.split(","))) for c in latlon_quad.text.strip().split()]\<close>.
  The builtin \<^verbatim>\<open>float\<close> is a parameter \<open>pf\<close>: \<open>Inr v\<close> is the parsed number,
  \<open>Inl e\<close> the exception raised for a string that is not a number. The type \<open>'f\<close> of
  floating-point values is left open.
\<close>

definition parse_point :: "(string \<Rightarrow> error + 'f) \<Rightarrow> string \<Rightarrow> error + 'f list" where
  "parse_point pf c = map_result pf (split_on CHR '','' c)"

definition parse_coords :: "(string \<Rightarrow> error + 'f) \<Rightarrow> string \<Rightarrow> error + 'f list list" where
  "parse_coords pf text = map_result (parse_point pf) (split_ws (strip text))"

text \<open>Indexing a list or a tuple with a non-negative index.\<close>

definition list_index :: "'a list \<Rightarrow> nat \<Rightarrow> error + 'a" where
  "list_index xs i =
     (if i < length xs then Inr (xs ! i) else Inl (IndexError ''list index out of range''))"

definition tuple_index :: "'a list \<Rightarrow> nat \<Rightarrow> error + 'a" where
  "tuple_index t i =
     (if i < length t then Inr (t ! i) else Inl (IndexError ''tuple index out of range''))"

text \<open>\<^verbatim>\<open>gdal.GCP(x, y, z, pixel, line)\<close>\<close>

record 'f gcp =
  GCPX :: 'f
  GCPY :: 'f
  GCPZ :: int
  GCPPixel :: int
  GCPLine :: int

definition gdal_GCP :: "'f \<Rightarrow> 'f \<Rightarrow> int \<Rightarrow> int \<Rightarrow> int \<Rightarrow> 'f gcp" where
  "gdal_GCP x y z pixel line =
     \<lparr>GCPX = x, GCPY = y, GCPZ = z, GCPPixel = pixel, GCPLine = line\<rparr>"

text \<open>One element of the list of lines 75-80:
  \<^verbatim>\<open>gdal.GCP(coords[k][0], coords[k][1], 0, pixel, line)\<close>.\<close>

definition corner_gcp :: "'f list list \<Rightarrow> nat \<Rightarrow> int \<Rightarrow> int \<Rightarrow> error + 'f gcp" where
  "corner_gcp coords k pixel line =
     and_then (list_index coords k) (\<lambda>c.
     and_then (tuple_index c 0) (\<lambda>x.
     and_then (list_index coords k) (\<lambda>c'.
     and_then (tuple_index c' 1) (\<lambda>y.
     Inr (gdal_GCP x y 0 pixel line)))))"

text \<open>Lines 75-80.\<close>

definition make_gcps :: "'f list list \<Rightarrow> int \<Rightarrow> int \<Rightarrow> error + 'f gcp list" where
  "make_gcps coords width height =
     and_then (corner_gcp coords 0 0 height) (\<lambda>g0.
     and_then (corner_gcp coords 1 width height) (\<lambda>g1.
     and_then (corner_gcp coords 2 width 0) (\<lambda>g2.
     and_then (corner_gcp coords 3 0 0) (\<lambda>g3.
     Inr [g0, g1, g2, g3]))))"

subsection \<open>The world: files, library calls, console, outcome lists\<close>

text \<open>
  A file-system entry is a directory or a file with its bytes. \<open>calls\<close> is the trace of
  library calls with an effect on files, in the order they are made; a call is recorded
  whether or not it raises. \<open>stdout\<close> holds one entry per \<^verbatim>\<open>print\<close> that returned;
  the constructors of \<open>msg\<close> stand for the printed lines, their arguments for the values
  formatted into them: the skip notice of line 27, the progress line of line 31, the
  success line of line 106, the failure line of line 110 (base name and \<^verbatim>\<open>str(e)\<close>), the
  notice of line 133, and the lines of the summary (lines 139-148). The three lists are
  the module globals of lines 16-18.
\<close>

datatype node = Directory | File string

type_synonym fs = "path \<Rightarrow> node option"

record dataset =
  ds_file :: path
  RasterXSize :: int
  RasterYSize :: int

datatype 'f call =
    MakeDirs path
  | ExtractAll path path
  | ListDir path
  | ETParse path
  | GdalOpen path
  | GdalTranslate path dataset "'f gcp list" string
  | GdalWarp path path string bool "string list"
  | Remove path
  | OpenAppend path

datatype msg =
    Skipping string
  | Processing string
  | Saved path
  | Failed string string
  | NoKmzFound path
  | Rule
  | Successful "string list"
  | SkippedNames "string list"
  | FailedNames "string list"
  | Complete
  | NewFiles path

record 'f world =
  files :: fs
  calls :: "'f call list"
  stdout :: "msg list"
  success_list :: "string list"
  failed_list :: "string list"
  skipped_list :: "string list"

text \<open>
  What \<^verbatim>\<open>ElementTree\<close> gives for a parsed KML document, as far as the script asks:
  the result of \<^verbatim>\<open>root.find(".//{gx}LatLonQuad/{kml}coordinates")\<close>, and the result of
  \<^verbatim>\<open>root.find(".//{kml}GroundOverlay")\<close> with its \<^verbatim>\<open>find("{kml}Icon/{kml}href")\<close>.
  \<open>None\<close> is Python's \<^verbatim>\<open>None\<close>.
\<close>

datatype element = Element (elem_text: "string option")

datatype overlay = GroundOverlay (find_icon_href: "element option")

record kml_root =
  find_quad_coordinates :: "element option"
  find_ground_overlay :: "overlay option"

text \<open>
  The libraries are a parameter: each field answers one call from the current file
  system and the call's arguments, with the exception it raises (\<open>Inl\<close>, or \<open>Some\<close> where
  the call returns nothing) or its result. \<open>py_float\<close> is the builtin \<^verbatim>\<open>float\<close>;
  \<open>zip_extractall\<close> gives the members written, each with its path below the target
  directory and what it is (a directory, or a file with its bytes); \<open>gdal_open\<close> may
  return \<^verbatim>\<open>None\<close>; \<open>gdal_translate\<close> and \<open>gdal_warp\<close> give the bytes of the raster
  they write; \<open>open_append\<close> is \<^verbatim>\<open>open(path, "a", encoding="utf-8")\<close>, and
  \<open>file_write\<close> is \<^verbatim>\<open>write\<close> on the file it gives: \<open>None\<close> when the text is
  taken, otherwise the exception raised (a \<^verbatim>\<open>UnicodeEncodeError\<close> for a name that is
  not valid text). A call that raises is taken to leave the file system as it was.
  \<open>py_print\<close> is \<^verbatim>\<open>print\<close> on the console of the run:
  \<open>None\<close> when the line is written, otherwise the exception raised (a
  \<^verbatim>\<open>UnicodeEncodeError\<close> when the console's encoding has no code for a character of the
  line, as for the symbols of the status lines on an ASCII console, or for a file name
  that is not valid text).
\<close>

record 'f lib =
  py_float :: "string \<Rightarrow> error + 'f"
  os_makedirs :: "fs \<Rightarrow> path \<Rightarrow> error option"
  zip_extractall :: "fs \<Rightarrow> path \<Rightarrow> path \<Rightarrow> error + (path \<times> node) list"
  os_listdir :: "fs \<Rightarrow> path \<Rightarrow> error + string list"
  et_parse :: "fs \<Rightarrow> path \<Rightarrow> error + kml_root"
  gdal_open :: "fs \<Rightarrow> path \<Rightarrow> error + dataset option"
  gdal_translate :: "fs \<Rightarrow> path \<Rightarrow> dataset \<Rightarrow> 'f gcp list \<Rightarrow> string \<Rightarrow> error + string"
  gdal_warp :: "fs \<Rightarrow> path \<Rightarrow> path \<Rightarrow> string \<Rightarrow> bool \<Rightarrow> string list \<Rightarrow> error + string"
  os_remove :: "fs \<Rightarrow> path \<Rightarrow> error option"
  open_append :: "fs \<Rightarrow> path \<Rightarrow> error option"
  file_write :: "string \<Rightarrow> error option"
  py_print :: "msg \<Rightarrow> error option"

subsection \<open>Statements that may raise\<close>

type_synonym ('f, 'a) action = "'f world \<Rightarrow> (error + 'a) \<times> 'f world"

definition seq :: "('f, 'a) action \<Rightarrow> ('a \<Rightarrow> ('f, 'b) action) \<Rightarrow> ('f, 'b) action" where
  "seq m k w = (case m w of (Inl e, w') \<Rightarrow> (Inl e, w') | (Inr x, w') \<Rightarrow> k x w')"

definition raise :: "error \<Rightarrow> ('f, 'a) action" where
  "raise e w = (Inl e, w)"

definition ret :: "'a \<Rightarrow> ('f, 'a) action" where
  "ret x w = (Inr x, w)"

definition lift :: "error + 'a \<Rightarrow> ('f, 'a) action" where
  "lift r w = (r, w)"

text \<open>A statement that cannot raise, such as \<^verbatim>\<open>xs.append(x)\<close>.\<close>

definition modify :: "('f world \<Rightarrow> 'f world) \<Rightarrow> ('f, unit) action" where
  "modify f w = (Inr (), f w)"

text \<open>\<^verbatim>\<open>try: body except Exception as e: handler\<close>. Every exception of the type
  \<open>error\<close> is an \<^verbatim>\<open>Exception\<close>, so the handler takes them all; an exception raised
  by the handler itself leaves the statement.\<close>

definition try_except ::
  "('f, 'a) action \<Rightarrow> (error \<Rightarrow> ('f, 'a) action) \<Rightarrow> ('f, 'a) action" where
  "try_except body handler w =
     (case body w of (Inl e, w') \<Rightarrow> handler e w' | (Inr x, w') \<Rightarrow> (Inr x, w'))"

text \<open>\<^verbatim>\<open>print(...)\<close>: the line reaches the console, or the call raises and nothing is
  written.\<close>

definition call_print :: "'f lib \<Rightarrow> msg \<Rightarrow> ('f, unit) action" where
  "call_print lib m w =
     (case py_print lib m of
        Some e \<Rightarrow> (Inl e, w)
      | None \<Rightarrow> (Inr (), w\<lparr>stdout := stdout w @ [m]\<rparr>))"

definition record_call :: "'f call \<Rightarrow> 'f world \<Rightarrow> 'f world" where
  "record_call c w = w\<lparr>calls := calls w @ [c]\<rparr>"

text \<open>\<^verbatim>\<open>os.makedirs(p, exist_ok=True)\<close> creates \<open>p\<close> and every missing directory above it.
  \<open>path_prefixes\<close> lists \<open>p\<close> cut before each separator, then \<open>p\<close> itself.\<close>

fun path_prefixes :: "path \<Rightarrow> path \<Rightarrow> path list" where
  "path_prefixes acc [] = [acc]"
| "path_prefixes acc (c # cs) =
     (if c = os_sep \<and> acc \<noteq> [] then acc # path_prefixes (acc @ [c]) cs
      else path_prefixes (acc @ [c]) cs)"

definition mkdirs :: "fs \<Rightarrow> path \<Rightarrow> fs" where
  "mkdirs f p =
     (\<lambda>q. case f q of
            Some nd \<Rightarrow> Some nd
          | None \<Rightarrow> if q \<in> set (path_prefixes [] p) then Some Directory else None)"

definition call_makedirs :: "'f lib \<Rightarrow> path \<Rightarrow> ('f, unit) action" where
  "call_makedirs lib p w =
     (let w1 = record_call (MakeDirs p) w
      in case os_makedirs lib (files w) p of
           Some e \<Rightarrow> (Inl e, w1)
         | None \<Rightarrow> (Inr (), w1\<lparr>files := mkdirs (files w) p\<rparr>))"

text \<open>\<^verbatim>\<open>with zipfile.ZipFile(kmz_path, "r") as z: z.extractall(tmp_dir)\<close>: each member
  is written under \<open>tmp_dir\<close>, a directory with \<^verbatim>\<open>makedirs\<close>, a file after the
  directories above it have been created.\<close>

definition mkparents :: "fs \<Rightarrow> path \<Rightarrow> fs" where
  "mkparents f p =
     (\<lambda>q. case f q of
            Some nd \<Rightarrow> Some nd
          | None \<Rightarrow> if q \<in> set (butlast (path_prefixes [] p)) then Some Directory else None)"

definition write_member :: "path \<Rightarrow> node \<Rightarrow> fs \<Rightarrow> fs" where
  "write_member p nd f =
     (case nd of
        Directory \<Rightarrow> mkdirs f p
      | File bytes \<Rightarrow> (mkparents f p)(p \<mapsto> File bytes))"

fun write_members :: "path \<Rightarrow> (path \<times> node) list \<Rightarrow> fs \<Rightarrow> fs" where
  "write_members d [] f = f"
| "write_members d ((name, nd) # ms) f = write_members d ms (write_member (join d name) nd f)"

definition call_extractall :: "'f lib \<Rightarrow> path \<Rightarrow> path \<Rightarrow> ('f, unit) action" where
  "call_extractall lib kmz_path tmp_dir w =
     (let w1 = record_call (ExtractAll kmz_path tmp_dir) w
      in case zip_extractall lib (files w) kmz_path tmp_dir of
           Inl e \<Rightarrow> (Inl e, w1)
         | Inr members \<Rightarrow> (Inr (), w1\<lparr>files := write_members tmp_dir members (files w)\<rparr>))"

definition call_listdir :: "'f lib \<Rightarrow> path \<Rightarrow> ('f, string list) action" where
  "call_listdir lib d w = (os_listdir lib (files w) d, record_call (ListDir d) w)"

definition call_et_parse :: "'f lib \<Rightarrow> path \<Rightarrow> ('f, kml_root) action" where
  "call_et_parse lib p w = (et_parse lib (files w) p, record_call (ETParse p) w)"

definition call_gdal_open :: "'f lib \<Rightarrow> path \<Rightarrow> ('f, dataset option) action" where
  "call_gdal_open lib p w = (gdal_open lib (files w) p, record_call (GdalOpen p) w)"

definition call_translate ::
  "'f lib \<Rightarrow> path \<Rightarrow> dataset \<Rightarrow> 'f gcp list \<Rightarrow> string \<Rightarrow> ('f, unit) action" where
  "call_translate lib dst ds gcps srs w =
     (let w1 = record_call (GdalTranslate dst ds gcps srs) w
      in case gdal_translate lib (files w) dst ds gcps srs of
           Inl e \<Rightarrow> (Inl e, w1)
         | Inr bytes \<Rightarrow> (Inr (), w1\<lparr>files := (files w)(dst \<mapsto> File bytes)\<rparr>))"

definition call_warp ::
  "'f lib \<Rightarrow> path \<Rightarrow> path \<Rightarrow> string \<Rightarrow> bool \<Rightarrow> string list \<Rightarrow> ('f, unit) action" where
  "call_warp lib dst src srs tps copts w =
     (let w1 = record_call (GdalWarp dst src srs tps copts) w
      in case gdal_warp lib (files w) dst src srs tps copts of
           Inl e \<Rightarrow> (Inl e, w1)
         | Inr bytes \<Rightarrow> (Inr (), w1\<lparr>files := (files w)(dst \<mapsto> File bytes)\<rparr>))"

definition call_remove :: "'f lib \<Rightarrow> path \<Rightarrow> ('f, unit) action" where
  "call_remove lib p w =
     (let w1 = record_call (Remove p) w
      in case os_remove lib (files w) p of
           Some e \<Rightarrow> (Inl e, w1)
         | None \<Rightarrow> (Inr (), w1\<lparr>files := (files w)(p := None)\<rparr>))"

subsection \<open>The conversion of one archive (\<^verbatim>\<open>convert_kmz\<close>)\<close>

text \<open>Lines 35-38: create the extraction directory and unpack the archive into it.\<close>

definition extract_kmz :: "'f lib \<Rightarrow> path \<Rightarrow> path \<Rightarrow> ('f, unit) action" where
  "extract_kmz lib kmz_path tmp_dir =
     seq (call_makedirs lib tmp_dir) (\<lambda>_. call_extractall lib kmz_path tmp_dir)"

text \<open>Lines 41-44: the first listed name that ends in \<^verbatim>\<open>.kml\<close>, whatever its case.\<close>

definition find_kml :: "'f lib \<Rightarrow> path \<Rightarrow> ('f, path) action" where
  "find_kml lib tmp_dir =
     seq (call_listdir lib tmp_dir) (\<lambda>names.
       let kml_files = filter (\<lambda>f. endswith (lower f) ''.kml'') names
       in if kml_files = [] then raise (Exception ''No KML found'')
          else ret (join tmp_dir (hd kml_files)))"

text \<open>Lines 54-60: the quadrilateral's coordinate text, parsed, with exactly four points.\<close>

definition read_quad :: "'f lib \<Rightarrow> kml_root \<Rightarrow> error + 'f list list" where
  "read_quad lib root =
     (case find_quad_coordinates root of
        None \<Rightarrow> Inl (Exception ''No LatLonQuad found'')
      | Some latlon_quad \<Rightarrow>
          (case elem_text latlon_quad of
             None \<Rightarrow> Inl (AttributeError ''NoneType object has no attribute strip'')
           | Some t \<Rightarrow>
               and_then (parse_coords (py_float lib) t) (\<lambda>coords.
                 if length coords \<noteq> 4
                 then Inl (Exception ''LatLonQuad does not have 4 points'')
                 else Inr coords)))"

text \<open>Lines 63-67: the image the overlay refers to, which must exist under \<open>tmp_dir\<close>.\<close>

definition locate_image :: "path \<Rightarrow> kml_root \<Rightarrow> fs \<Rightarrow> error + path" where
  "locate_image tmp_dir root f =
     (case find_ground_overlay root of
        None \<Rightarrow> Inl (AttributeError ''NoneType object has no attribute find'')
      | Some go \<Rightarrow>
          (case find_icon_href go of
             None \<Rightarrow> Inl (AttributeError ''NoneType object has no attribute text'')
           | Some icon \<Rightarrow>
               (case elem_text icon of
                  None \<Rightarrow> Inl (AttributeError ''NoneType object has no attribute replace'')
                | Some t \<Rightarrow>
                    (let img_file = join tmp_dir (replace_char CHR ''/'' os_sep t)
                     in if f img_file = None
                        then Inl (Exception (''Image file not found: '' @ img_file))
                        else Inr img_file))))"

text \<open>Lines 35-48: unpack the archive, pick the descriptor and parse it.\<close>

definition load_descriptor :: "'f lib \<Rightarrow> path \<Rightarrow> path \<Rightarrow> ('f, kml_root) action" where
  "load_descriptor lib kmz_path tmp_dir =
     seq (extract_kmz lib kmz_path tmp_dir) (\<lambda>_.
     seq (find_kml lib tmp_dir) (\<lambda>kml_path.
     call_et_parse lib kml_path))"

text \<open>Lines 50-67: the corner points and the image path read from the parsed descriptor.\<close>

definition read_descriptor ::
  "'f lib \<Rightarrow> path \<Rightarrow> kml_root \<Rightarrow> ('f, 'f list list \<times> path) action" where
  "read_descriptor lib tmp_dir root =
     seq (lift (read_quad lib root)) (\<lambda>coords.
     seq (\<lambda>w. (locate_image tmp_dir root (files w), w)) (\<lambda>img_file.
     ret (coords, img_file)))"

text \<open>Lines 70-84: open the image, bind the four corners to its pixel corners, and write
  the control-point-tagged intermediate raster.\<close>

definition rectify :: "'f lib \<Rightarrow> path \<Rightarrow> 'f list list \<Rightarrow> path \<Rightarrow> ('f, unit) action" where
  "rectify lib img_file coords tmp_tif =
     seq (call_gdal_open lib img_file) (\<lambda>ds.
       case ds of
         None \<Rightarrow> raise (Exception ''Failed to open image file'')
       | Some ds \<Rightarrow>
           (let width = RasterXSize ds; height = RasterYSize ds
            in seq (lift (make_gcps coords width height)) (\<lambda>gcps.
               call_translate lib tmp_tif ds gcps ''EPSG:4326'')))"

text \<open>Lines 87-104: warp the intermediate raster to the output, then delete it.\<close>

definition creation_options :: "string list" where
  "creation_options =
     [''TILED=YES'', ''COMPRESS=JPEG'', ''JPEG_QUALITY=50'', ''BIGTIFF=IF_SAFER'',
      ''BLOCKXSIZE=512'', ''BLOCKYSIZE=512'']"

definition encode :: "'f lib \<Rightarrow> path \<Rightarrow> path \<Rightarrow> ('f, unit) action" where
  "encode lib out_tif tmp_tif =
     seq (call_warp lib out_tif tmp_tif ''EPSG:4326'' True creation_options) (\<lambda>_.
     call_remove lib tmp_tif)"

text \<open>Lines 34-104: everything the \<^verbatim>\<open>try\<close> statement does before it reports success.\<close>

definition produce_geotiff :: "'f lib \<Rightarrow> path \<Rightarrow> path \<Rightarrow> string \<Rightarrow> path \<Rightarrow> ('f, unit) action" where
  "produce_geotiff lib out_folder kmz_path base out_tif =
     (let tmp_dir = tmp_dir_of out_folder base;
          tmp_tif = tmp_tif_of out_folder base
      in seq (load_descriptor lib kmz_path tmp_dir) (\<lambda>root.
         seq (read_descriptor lib tmp_dir root) (\<lambda>(coords, img_file).
         seq (rectify lib img_file coords tmp_tif) (\<lambda>_.
         encode lib out_tif tmp_tif))))"

text \<open>The body of the \<^verbatim>\<open>try\<close> statement, lines 34-106: line 105 appends to the
  success list, then line 106 prints the success line, still inside the \<^verbatim>\<open>try\<close>.\<close>

definition try_block :: "'f lib \<Rightarrow> path \<Rightarrow> path \<Rightarrow> string \<Rightarrow> path \<Rightarrow> ('f, unit) action" where
  "try_block lib out_folder kmz_path base out_tif =
     seq (produce_geotiff lib out_folder kmz_path base out_tif) (\<lambda>_.
     seq (modify (\<lambda>w. w\<lparr>success_list := success_list w @ [base]\<rparr>)) (\<lambda>_.
     call_print lib (Saved out_tif)))"

text \<open>Lines 108-110, the handler of \<^verbatim>\<open>except Exception as e\<close>: line 109 appends to
  the failed list, then line 110 prints the failure line.\<close>

definition except_handler :: "'f lib \<Rightarrow> string \<Rightarrow> error \<Rightarrow> ('f, unit) action" where
  "except_handler lib base e =
     seq (modify (\<lambda>w. w\<lparr>failed_list := failed_list w @ [base]\<rparr>)) (\<lambda>_.
     call_print lib (Failed base (str_of e)))"

text \<open>Lines 26-29: the skip notice is printed, then the name is appended to the skipped
  list; neither is inside a \<^verbatim>\<open>try\<close>.\<close>

definition skip_existing :: "'f lib \<Rightarrow> string \<Rightarrow> ('f, unit) action" where
  "skip_existing lib base =
     seq (call_print lib (Skipping base)) (\<lambda>_.
     modify (\<lambda>w. w\<lparr>skipped_list := skipped_list w @ [base]\<rparr>))"

text \<open>Lines 21-110. The result is \<open>Inr ()\<close> when \<^verbatim>\<open>convert_kmz\<close> returns and \<open>Inl e\<close>
  when the exception \<open>e\<close> leaves it: one raised by the print of line 27 or of line 31,
  which are outside the \<^verbatim>\<open>try\<close>, or by the print of line 110 inside the handler.\<close>

definition convert_kmz :: "'f lib \<Rightarrow> path \<Rightarrow> path \<Rightarrow> ('f, unit) action" where
  "convert_kmz lib script_dir kmz_path w =
     (let out_folder = output_folder script_dir;
          base = base_of kmz_path;
          out_tif = out_tif_of out_folder base
      in if files w out_tif \<noteq> None then skip_existing lib base w
         else seq (call_print lib (Processing base)) (\<lambda>_.
              try_except (try_block lib out_folder kmz_path base out_tif)
                (except_handler lib base)) w)"

subsection \<open>The log and the batch (\<^verbatim>\<open>log_successful_conversions\<close>, \<^verbatim>\<open>main\<close>)\<close>

text \<open>Lines 121-124: the texts one run writes to the log, one for each call of
  \<^verbatim>\<open>log.write\<close>. \<open>timestamp\<close> is
  \<^verbatim>\<open>datetime.now().strftime("%m/%d/%Y %H:%M:%S")\<close>.\<close>

definition log_lines :: "string \<Rightarrow> string list \<Rightarrow> string list" where
  "log_lines timestamp sorted_names =
     [''\<newline>--- Conversion on '' @ timestamp @ '' ---\<newline>'']
       @ map (\<lambda>name. name @ ''\<newline>'') sorted_names @ [''\<newline>'']"

text \<open>The calls of \<^verbatim>\<open>log.write\<close> in order: the exception of the first call that
  raises, if any, and the text taken before it. Leaving the \<^verbatim>\<open>with\<close> statement closes
  the file, so the text taken reaches the file also when a later call raises.\<close>

primrec write_all :: "'f lib \<Rightarrow> string list \<Rightarrow> error option \<times> string" where
  "write_all lib [] = (None, [])"
| "write_all lib (s # ss) =
     (case file_write lib s of
        Some e \<Rightarrow> (Some e, [])
      | None \<Rightarrow> (case write_all lib ss of (r, written) \<Rightarrow> (r, s @ written)))"

text \<open>The bytes of a file, empty when there is none: opening for append creates it.\<close>

definition file_bytes :: "fs \<Rightarrow> path \<Rightarrow> string" where
  "file_bytes f p = (case f p of Some (File s) \<Rightarrow> s | _ \<Rightarrow> [])"

text \<open>Lines 113-125. \<^verbatim>\<open>sorted(set(success_list))\<close> orders the names by code point,
  which for UTF-8 text is the order of their bytes.\<close>

definition log_successful_conversions :: "'f lib \<Rightarrow> path \<Rightarrow> string \<Rightarrow> ('f, unit) action" where
  "log_successful_conversions lib script_dir timestamp w =
     (if success_list w = [] then (Inr (), w)
      else (let sorted_names = sorted_list_of_set (set (success_list w));
                lg = log_file script_dir;
                w1 = record_call (OpenAppend lg) w
            in case open_append lib (files w) lg of
                 Some e \<Rightarrow> (Inl e, w1)
               | None \<Rightarrow>
                   (case write_all lib (log_lines timestamp sorted_names) of
                      (r, written) \<Rightarrow>
                        ((case r of Some e \<Rightarrow> Inl e | None \<Rightarrow> Inr ()),
                         w1\<lparr>files := (files w)(lg \<mapsto>
                               File (file_bytes (files w) lg @ written))\<rparr>))))"

text \<open>Lines 136-137: the loop ends when a call of \<^verbatim>\<open>convert_kmz\<close> is left by an
  exception.\<close>

primrec convert_all :: "'f lib \<Rightarrow> path \<Rightarrow> string list \<Rightarrow> ('f, unit) action" where
  "convert_all lib script_dir [] = ret ()"
| "convert_all lib script_dir (kmz # rest) =
     seq (convert_kmz lib script_dir (join script_dir kmz)) (\<lambda>_.
     convert_all lib script_dir rest)"

text \<open>Lines 139-148: the lines of the summary, and their printing one after the other.\<close>

definition summary :: "path \<Rightarrow> 'f world \<Rightarrow> msg list" where
  "summary script_dir w =
     [Rule]
     @ (if success_list w \<noteq> [] then [Successful (success_list w)] else [])
     @ (if skipped_list w \<noteq> [] then [SkippedNames (skipped_list w)] else [])
     @ (if failed_list w \<noteq> [] then [FailedNames (failed_list w)] else [])
     @ [Rule, Complete, NewFiles (output_folder script_dir)]"

primrec print_all :: "'f lib \<Rightarrow> msg list \<Rightarrow> ('f, unit) action" where
  "print_all lib [] = ret ()"
| "print_all lib (m # ms) = seq (call_print lib m) (\<lambda>_. print_all lib ms)"

definition print_summary :: "'f lib \<Rightarrow> path \<Rightarrow> ('f, unit) action" where
  "print_summary lib script_dir w = print_all lib (summary script_dir w) w"

text \<open>Lines 130-151.\<close>

definition main :: "'f lib \<Rightarrow> path \<Rightarrow> string \<Rightarrow> ('f, unit) action" where
  "main lib script_dir timestamp =
     seq (call_listdir lib script_dir) (\<lambda>names.
       let kmz_files = filter (\<lambda>f. endswith (lower f) ''.kmz'') names
       in if kmz_files = [] then call_print lib (NoKmzFound script_dir)
          else seq (convert_all lib script_dir kmz_files) (\<lambda>_.
               seq (print_summary lib script_dir) (\<lambda>_.
               log_successful_conversions lib script_dir timestamp)))"

text \<open>Lines 9-18, run when the module is loaded: the output folder is created and the
  three lists start empty.\<close>

definition initial_world :: "fs \<Rightarrow> 'f world" where
  "initial_world f =
     \<lparr>files = f, calls = [], stdout = [], success_list = [], failed_list = [],
      skipped_list = []\<rparr>"


subsection \<open>What a statement leaves in place\<close>

text \<open>\<open>keeps R m\<close>: the world after \<open>m\<close> is related by \<open>R\<close> to the world before it,
  whether \<open>m\<close> returns or raises.\<close>

definition keeps :: "('f world \<Rightarrow> 'f world \<Rightarrow> bool) \<Rightarrow> ('f, 'a) action \<Rightarrow> bool" where
  "keeps R m = (\<forall>w. R w (snd (m w)))"

text \<open>\<open>progress t w w'\<close>: from \<open>w\<close> to \<open>w'\<close> the outcome lists and the console are
  untouched, the call trace has only grown, and no file but \<open>t\<close> has disappeared.\<close>

definition progress :: "path \<Rightarrow> 'f world \<Rightarrow> 'f world \<Rightarrow> bool" where
  "progress t w w' =
     (success_list w' = success_list w \<and> failed_list w' = failed_list w \<and>
      skipped_list w' = skipped_list w \<and> stdout w' = stdout w \<and>
      prefix (calls w) (calls w') \<and>
      (\<forall>q. q \<noteq> t \<longrightarrow> files w q \<noteq> None \<longrightarrow> files w' q \<noteq> None))"

text \<open>The two calls that write a raster: \<^verbatim>\<open>gdal.Translate\<close> and \<^verbatim>\<open>gdal.Warp\<close>.\<close>

fun is_raster_write :: "'f call \<Rightarrow> bool" where
  "is_raster_write (GdalTranslate dst ds gcps srs) = True"
| "is_raster_write (GdalWarp dst src srs tps copts) = True"
| "is_raster_write c = False"

subsection \<open>An example environment\<close>

text \<open>
  A small environment on which the definitions can be run. Numbers are unsigned decimal
  integers, every archive but \<^verbatim>\<open>bad.kmz\<close> unpacks to a descriptor and an image of
  100 by 200 pixels, every descriptor has the quadrilateral text \<open>quad\<close>, and
  \<^verbatim>\<open>gdal.Warp\<close> works or raises as \<open>warp_ok\<close> says. The directory \<^verbatim>\<open>/s\<close> holds three
  archives; any other directory lists no archive.

  Three consoles. The lines of \<open>has_symbols\<close> are those the script writes with a pictograph
  or with box-drawing characters: all but the progress line, the notice of line 133 and
  the last line of the summary. \<open>utf8_console\<close> takes every line unless a name in it
  holds a byte that no UTF-8 text holds (0xF8-0xFF), as a file name that is not valid
  text does; \<open>ascii_console\<close> takes a line only when it has no such symbol and all its
  names are ASCII; \<open>lenient_console\<close> takes every line, as a console does whose
  encoder replaces what it cannot encode.
\<close>

definition example_float :: "string \<Rightarrow> error + int" where
  "example_float s =
     (if s \<noteq> [] \<and> list_all (\<lambda>c. 48 \<le> (of_char c :: nat) \<and> (of_char c :: nat) \<le> 57) s
      then Inr (foldl (\<lambda>a c. 10 * a + (int (of_char c) - 48)) 0 s)
      else Inl (ValueError (''could not convert string to float: '' @ s)))"

definition example_root :: "string \<Rightarrow> kml_root" where
  "example_root quad =
     \<lparr>find_quad_coordinates = Some (Element (Some quad)),
      find_ground_overlay = Some (GroundOverlay (Some (Element (Some ''files/img.png''))))\<rparr>"

fun msg_names :: "msg \<Rightarrow> string list" where
  "msg_names (Skipping base) = [base]"
| "msg_names (Processing base) = [base]"
| "msg_names (Saved p) = [p]"
| "msg_names (Failed base description) = [base, description]"
| "msg_names (NoKmzFound d) = [d]"
| "msg_names Rule = []"
| "msg_names (Successful names) = names"
| "msg_names (SkippedNames names) = names"
| "msg_names (FailedNames names) = names"
| "msg_names Complete = []"
| "msg_names (NewFiles d) = [d]"

fun has_symbols :: "msg \<Rightarrow> bool" where
  "has_symbols (Processing base) = False"
| "has_symbols (NoKmzFound d) = False"
| "has_symbols (NewFiles d) = False"
| "has_symbols m = True"

definition utf8_console :: "msg \<Rightarrow> error option" where
  "utf8_console m =
     (if list_ex (list_ex (\<lambda>c. 248 \<le> (of_char c :: nat))) (msg_names m)
      then Some (UnicodeEncodeError ''surrogates not allowed'')
      else None)"

definition ascii_console :: "msg \<Rightarrow> error option" where
  "ascii_console m =
     (if has_symbols m \<or> list_ex (list_ex (\<lambda>c. 128 \<le> (of_char c :: nat))) (msg_names m)
      then Some (UnicodeEncodeError ''ordinal not in range(128)'')
      else None)"

definition lenient_console :: "msg \<Rightarrow> error option" where
  "lenient_console m = None"

definition example_lib :: "string \<Rightarrow> bool \<Rightarrow> (msg \<Rightarrow> error option) \<Rightarrow> int lib" where
  "example_lib quad warp_ok console =
     \<lparr>py_float = example_float,
      os_makedirs = (\<lambda>f p. None),
      zip_extractall = (\<lambda>f kmz_path tmp_dir.
        if basename kmz_path = ''bad.kmz'' then Inl (BadZipFile ''File is not a zip file'')
        else Inr [(''doc.kml'', File ''<kml/>''), (''files/img.png'', File ''PNG'')]),
      os_listdir = (\<lambda>f d.
        if d = ''/s'' then Inr [''b.kmz'', ''notes.txt'', ''bad.kmz'', ''a.KMZ'']
        else Inr [''files'', ''doc.kml'']),
      et_parse = (\<lambda>f p. Inr (example_root quad)),
      gdal_open = (\<lambda>f p. Inr (Some \<lparr>ds_file = p, RasterXSize = 100, RasterYSize = 200\<rparr>)),
      gdal_translate = (\<lambda>f dst ds gcps srs. Inr ''GCPTIFF''),
      gdal_warp = (\<lambda>f dst src srs tps copts.
        if warp_ok then Inr ''GEOTIFF'' else Inl (RuntimeError ''warp failed'')),
      os_remove = (\<lambda>f p. None),
      open_append = (\<lambda>f p. None),
      file_write = (\<lambda>s.
        if list_ex (\<lambda>c. 248 \<le> (of_char c :: nat)) s
        then Some (UnicodeEncodeError ''surrogates not allowed'')
        else None),
      py_print = console\<rparr>"

section \<open>Properties\<close>

subsection \<open>Sequencing and framing\<close>

lemma keepsD: "keeps R m \<Longrightarrow> R w (snd (m w))"
  by (simp add: keeps_def)

lemma keeps_seq:
  assumes "transp R" and "keeps R m" and "\<And>x. keeps R (k x)"
  shows "keeps R (seq m k)"
  unfolding keeps_def
proof
  fix w
  show "R w (snd (seq m k w))"
  proof (cases "m w")
    case (Pair r w')
    have step: "R w w'" using keepsD [OF assms(2), of w] Pair by simp
    show ?thesis
    proof (cases r)
      case (Inl e)
      with Pair step show ?thesis by (simp add: seq_def)
    next
      case (Inr x)
      have "R w' (snd (k x w'))" using keepsD [OF assms(3)] .
      with step have "R w (snd (k x w'))" using assms(1) by (blast dest: transpD)
      with Pair Inr show ?thesis by (simp add: seq_def)
    qed
  qed
qed

lemma keeps_raise: "reflp R \<Longrightarrow> keeps R (raise e)"
  by (simp add: keeps_def raise_def reflpD)

lemma keeps_ret: "reflp R \<Longrightarrow> keeps R (ret x)"
  by (simp add: keeps_def ret_def reflpD)

lemma keeps_lift: "reflp R \<Longrightarrow> keeps R (lift r)"
  by (simp add: keeps_def lift_def reflpD)

lemma progress_refl: "reflp (progress t)"
  by (rule reflpI) (simp add: progress_def)

lemma progress_trans: "transp (progress t)"
  by (rule transpI) (auto simp: progress_def)

lemma mkdirs_keeps: "f q = Some y \<Longrightarrow> \<exists>z. mkdirs f p q = Some z"
  by (simp add: mkdirs_def)

lemma write_member_keeps: "f q = Some y \<Longrightarrow> \<exists>z. write_member p nd f q = Some z"
  by (cases nd) (simp_all add: write_member_def mkdirs_def mkparents_def)

lemma write_members_keeps: "f q = Some y \<Longrightarrow> \<exists>z. write_members d ms f q = Some z"
proof (induction d ms f arbitrary: y rule: write_members.induct)
  case (1 d f)
  then show ?case by simp
next
  case (2 d name nd ms f)
  from write_member_keeps [where f = f and q = q, OF "2.prems"] obtain z where
    "write_member (join d name) nd f q = Some z" by blast
  from "2.IH" [OF this] show ?case by simp
qed

lemma makedirs_progress: "keeps (progress t) (call_makedirs lib p)"
  by (auto simp: keeps_def progress_def call_makedirs_def record_call_def mkdirs_def Let_def
      split: option.splits)

lemma extractall_progress: "keeps (progress t) (call_extractall lib k d)"
  by (auto simp: keeps_def progress_def call_extractall_def record_call_def Let_def
      split: sum.splits intro: write_members_keeps)

lemma listdir_progress: "keeps (progress t) (call_listdir lib d)"
  by (simp add: keeps_def progress_def call_listdir_def record_call_def)

lemma et_parse_progress: "keeps (progress t) (call_et_parse lib p)"
  by (simp add: keeps_def progress_def call_et_parse_def record_call_def)

lemma gdal_open_progress: "keeps (progress t) (call_gdal_open lib p)"
  by (simp add: keeps_def progress_def call_gdal_open_def record_call_def)

lemma translate_progress: "keeps (progress t) (call_translate lib dst ds gcps srs)"
  by (auto simp: keeps_def progress_def call_translate_def record_call_def Let_def
      split: sum.splits)

lemma warp_progress: "keeps (progress t) (call_warp lib dst src srs tps copts)"
  by (auto simp: keeps_def progress_def call_warp_def record_call_def Let_def
      split: sum.splits)

lemma remove_progress: "keeps (progress t) (call_remove lib t)"
  by (auto simp: keeps_def progress_def call_remove_def record_call_def Let_def
      split: option.splits)

lemma extract_kmz_progress: "keeps (progress t) (extract_kmz lib k d)"
  unfolding extract_kmz_def
  by (intro keeps_seq progress_trans makedirs_progress extractall_progress)

lemma find_kml_progress: "keeps (progress t) (find_kml lib d)"
  unfolding find_kml_def
  by (intro keeps_seq progress_trans listdir_progress)
     (simp add: Let_def keeps_raise keeps_ret progress_refl)

lemma load_descriptor_progress: "keeps (progress t) (load_descriptor lib k d)"
  unfolding load_descriptor_def
  by (intro keeps_seq progress_trans extract_kmz_progress find_kml_progress et_parse_progress)

lemma read_descriptor_progress: "keeps (progress t) (read_descriptor lib d root)"
  unfolding read_descriptor_def
  by (intro keeps_seq progress_trans keeps_lift keeps_ret progress_refl)
     (simp add: keeps_def reflpD [OF progress_refl])

lemma rectify_progress: "keeps (progress t) (rectify lib img coords tmp)"
  unfolding rectify_def
  by (intro keeps_seq progress_trans gdal_open_progress)
     (auto simp: Let_def split: option.splits
       intro!: keeps_raise keeps_seq keeps_lift progress_refl progress_trans translate_progress)

lemma encode_progress: "keeps (progress t) (encode lib out t)"
  unfolding encode_def
  by (intro keeps_seq progress_trans warp_progress remove_progress)

subsection \<open>The stages of one conversion\<close>

lemma produce_geotiff_progress:
  "keeps (progress (tmp_tif_of out_folder base)) (produce_geotiff lib out_folder kmz_path base out_tif)"
  unfolding produce_geotiff_def Let_def
  by (intro keeps_seq progress_trans load_descriptor_progress read_descriptor_progress)
     (auto intro!: keeps_seq progress_trans rectify_progress encode_progress)

lemma seq_Inr_elim:
  assumes "seq m k w = (Inr y, w')"
  obtains x wm where "m w = (Inr x, wm)" and "k x wm = (Inr y, w')"
  using assms by (auto simp: seq_def split: prod.splits sum.splits)

lemma encode_success:
  assumes "encode lib out t w = (Inr u, w')" and "out \<noteq> t"
  shows "files w' out \<noteq> None \<and> files w' t = None \<and>
         calls w' = calls w @ [GdalWarp out t ''EPSG:4326'' True creation_options, Remove t]"
  using assms
  by (auto simp: encode_def seq_def call_warp_def call_remove_def record_call_def Let_def
      split: sum.splits option.splits prod.splits)

lemma produce_geotiff_success:
  assumes "produce_geotiff lib out_folder kmz_path base out_tif w = (Inr u, w')"
    and "out_tif \<noteq> tmp_tif_of out_folder base"
  shows "files w' out_tif \<noteq> None \<and> files w' (tmp_tif_of out_folder base) = None \<and>
         suffix [GdalWarp out_tif (tmp_tif_of out_folder base) ''EPSG:4326'' True creation_options,
                 Remove (tmp_tif_of out_folder base)] (calls w')"
proof -
  from assms(1) obtain root w1 coords img w2 w3 u3 where
    enc: "encode lib out_tif (tmp_tif_of out_folder base) w3 = (Inr u, w')"
    unfolding produce_geotiff_def Let_def
    by (auto elim!: seq_Inr_elim)
  from encode_success [OF enc assms(2)] show ?thesis
    by (auto simp: suffix_def)
qed

lemma join_relative:
  "b = [] \<or> hd b \<noteq> os_sep \<Longrightarrow>
   join a b = (if a = [] \<or> last a = os_sep then a else a @ [os_sep]) @ b"
  by (auto simp: join_def)

lemma out_tif_neq_tmp_tif: "out_tif_of out_folder base \<noteq> tmp_tif_of out_folder base"
proof (cases "base \<noteq> [] \<and> hd base = os_sep")
  case True
  then show ?thesis by (auto simp: out_tif_of_def tmp_tif_of_def join_def)
next
  case False
  then have "base @ ''.tif'' = [] \<or> hd (base @ ''.tif'') \<noteq> os_sep"
    and "base @ ''_with_gcps.tif'' = [] \<or> hd (base @ ''_with_gcps.tif'') \<noteq> os_sep"
    by (auto simp: os_sep_def hd_append)
  then show ?thesis
    by (simp add: out_tif_of_def tmp_tif_of_def join_relative)
qed

lemma sep_notin_basename: "os_sep \<notin> set (basename p)"
  by (auto simp: basename_def dest: set_takeWhileD)

lemma splitext_subset: "set (fst (splitext p)) \<subseteq> set p"
  by (auto simp: splitext_def Let_def dest: in_set_takeD)

lemma sep_notin_base_of: "os_sep \<notin> set (base_of kmz_path)"
  using sep_notin_basename splitext_subset unfolding base_of_def by blast

lemma tmp_dir_neq_tmp_tif:
  assumes "os_sep \<notin> set base"
  shows "tmp_dir_of out_folder base \<noteq> tmp_tif_of out_folder base"
proof
  assume eq: "tmp_dir_of out_folder base = tmp_tif_of out_folder base"
  define P where "P = (if out_folder = [] \<or> last out_folder = os_sep then out_folder else out_folder @ [os_sep])"
  have rel: "base = [] \<or> hd base \<noteq> os_sep" using assms by (cases base) auto
  have a: "join out_folder ''_temp'' = P @ ''_temp''"
    by (simp add: join_relative P_def os_sep_def)
  have b: "tmp_dir_of out_folder base = P @ ''_temp'' @ [os_sep] @ base"
    unfolding tmp_dir_of_def a using rel by (simp add: join_relative os_sep_def)
  have "base @ ''_with_gcps.tif'' = [] \<or> hd (base @ ''_with_gcps.tif'') \<noteq> os_sep"
    using rel by (auto simp: hd_append os_sep_def)
  then have c: "tmp_tif_of out_folder base = P @ base @ ''_with_gcps.tif''"
    unfolding tmp_tif_of_def by (simp add: join_relative P_def)
  from eq b c have "''_temp'' @ [os_sep] @ base = base @ ''_with_gcps.tif''" by simp
  then have "set (''_temp'' @ [os_sep] @ base) = set (base @ ''_with_gcps.tif'')" by simp
  then have "os_sep \<in> set (base @ ''_with_gcps.tif'')" by auto
  with assms show False by (auto simp: os_sep_def)
qed

lemma path_prefixes_last: "acc @ p \<in> set (path_prefixes acc p)"
  by (induction acc p rule: path_prefixes.induct) auto

lemma mkdirs_creates: "mkdirs f p p \<noteq> None"
  using path_prefixes_last [of "[]" p] by (auto simp: mkdirs_def split: option.splits)

lemma load_descriptor_no_raster_write:
  "filter is_raster_write (calls (snd (load_descriptor lib k d w))) = filter is_raster_write (calls w)"
  by (auto simp: load_descriptor_def extract_kmz_def find_kml_def seq_def call_makedirs_def
      call_extractall_def call_listdir_def call_et_parse_def record_call_def Let_def raise_def ret_def
      split: sum.splits option.splits prod.splits)


lemma produce_geotiff_frame:
  assumes "produce_geotiff lib out_folder kmz_path base out_tif w = (r, w')"
  shows "progress (tmp_tif_of out_folder base) w w'"
proof -
  have "progress (tmp_tif_of out_folder base) w
          (snd (produce_geotiff lib out_folder kmz_path base out_tif w))"
    by (rule keepsD [OF produce_geotiff_progress])
  with assms show ?thesis by simp
qed

lemma initial_world_simps [simp]:
  "files (initial_world f) = f"
  "calls (initial_world f) = []"
  "stdout (initial_world f) = []"
  "success_list (initial_world f) = []"
  "failed_list (initial_world f) = []"
  "skipped_list (initial_world f) = []"
  by (simp_all add: initial_world_def)

lemma seq_keeps_from:
  assumes "m w = (r, wm)" and "\<And>x. keeps R (k x)" and "reflp R"
  shows "R wm (snd (seq m k w))"
proof (cases r)
  case (Inl e)
  with assms(1,3) show ?thesis by (simp add: seq_def reflpD)
next
  case (Inr x)
  with assms(1) have "seq m k w = k x wm" by (simp add: seq_def)
  moreover have "R wm (snd (k x wm))" by (rule keepsD [OF assms(2)])
  ultimately show ?thesis by simp
qed

lemma progress_file:
  "progress t w w' \<Longrightarrow> q \<noteq> t \<Longrightarrow> files w q \<noteq> None \<Longrightarrow> files w' q \<noteq> None"
  by (simp add: progress_def)

lemma produce_geotiff_keeps_tmp_dir:
  assumes mk: "os_makedirs lib (files w) (tmp_dir_of out_folder base) = None"
    and base: "os_sep \<notin> set base"
  shows "files (snd (produce_geotiff lib out_folder kmz_path base out_tif w))
           (tmp_dir_of out_folder base) \<noteq> None"
proof -
  let ?d = "tmp_dir_of out_folder base"
  let ?t = "tmp_tif_of out_folder base"
  let ?R = "progress ?t :: 'a world \<Rightarrow> 'a world \<Rightarrow> bool"
  define wm where "wm = (record_call (MakeDirs ?d) w)\<lparr>files := mkdirs (files w) ?d\<rparr>"
  have neq: "?d \<noteq> ?t" using base by (rule tmp_dir_neq_tmp_tif)
  have made: "call_makedirs lib ?d w = (Inr (), wm)"
    using mk by (simp add: call_makedirs_def wm_def Let_def)
  have at_wm: "files wm ?d \<noteq> None"
    by (simp add: wm_def mkdirs_creates)
  obtain r1 w1 where ext: "extract_kmz lib kmz_path ?d w = (r1, w1)"
    by (cases "extract_kmz lib kmz_path ?d w") auto
  have "?R wm (snd (extract_kmz lib kmz_path ?d w))"
    unfolding extract_kmz_def
    by (rule seq_keeps_from [where m = "call_makedirs lib ?d" and w = w, OF made])
       (rule extractall_progress progress_refl)+
  with ext have s1: "?R wm w1" by simp
  obtain r2 w2 where load: "load_descriptor lib kmz_path ?d w = (r2, w2)"
    by (cases "load_descriptor lib kmz_path ?d w") auto
  have "?R w1 (snd (load_descriptor lib kmz_path ?d w))"
    unfolding load_descriptor_def
    by (rule seq_keeps_from [where m = "extract_kmz lib kmz_path ?d" and w = w, OF ext])
       (intro keeps_seq progress_trans find_kml_progress et_parse_progress, rule progress_refl)
  with load have s2: "?R w1 w2" by simp
  have s3: "?R w2 (snd (produce_geotiff lib out_folder kmz_path base out_tif w))"
    unfolding produce_geotiff_def Let_def
    by (rule seq_keeps_from [where m = "load_descriptor lib kmz_path ?d" and w = w, OF load])
       (auto intro!: keeps_seq progress_trans read_descriptor_progress rectify_progress
          encode_progress progress_refl)
  from progress_file [OF s1 neq at_wm] have f1: "files w1 ?d \<noteq> None" .
  from progress_file [OF s2 neq f1] have f2: "files w2 ?d \<noteq> None" .
  from progress_file [OF s3 neq f2] show ?thesis .
qed

lemma read_quad_wrong_count:
  assumes "find_quad_coordinates root = Some (Element (Some t))"
    and "parse_coords (py_float lib) t = Inr coords"
    and "length coords \<noteq> 4"
  shows "read_quad lib root = Inl (Exception ''LatLonQuad does not have 4 points'')"
  using assms by (simp add: read_quad_def and_then_def)

lemma produce_geotiff_after_load:
  assumes "load_descriptor lib kmz_path (tmp_dir_of out_folder base) w = (Inr root, w1)"
    and "read_quad lib root = Inl e"
  shows "produce_geotiff lib out_folder kmz_path base out_tif w = (Inl e, w1)"
  using assms
  by (simp add: produce_geotiff_def Let_def seq_def read_descriptor_def lift_def)

subsection \<open>Printing and the outcome of one conversion\<close>

lemma call_print_returns:
  "py_print lib m = None \<Longrightarrow> call_print lib m w = (Inr (), w\<lparr>stdout := stdout w @ [m]\<rparr>)"
  by (simp add: call_print_def)

lemma call_print_raises: "py_print lib m = Some e \<Longrightarrow> call_print lib m w = (Inl e, w)"
  by (simp add: call_print_def)

lemma skip_existing_returns:
  assumes "py_print lib (Skipping base) = None"
  shows "skip_existing lib base w =
           (Inr (), w\<lparr>stdout := stdout w @ [Skipping base],
                       skipped_list := skipped_list w @ [base]\<rparr>)"
  using assms by (simp add: skip_existing_def seq_def call_print_def modify_def)

lemma except_handler_returns:
  assumes "py_print lib (Failed base (str_of e)) = None"
  shows "except_handler lib base e w =
           (Inr (), w\<lparr>failed_list := failed_list w @ [base],
                       stdout := stdout w @ [Failed base (str_of e)]\<rparr>)"
  using assms by (simp add: except_handler_def seq_def call_print_def modify_def)

lemma except_handler_fields:
  "files (snd (except_handler lib base e w)) = files w"
  "calls (snd (except_handler lib base e w)) = calls w"
  "failed_list (snd (except_handler lib base e w)) = failed_list w @ [base]"
  "success_list (snd (except_handler lib base e w)) = success_list w"
  "skipped_list (snd (except_handler lib base e w)) = skipped_list w"
  by (simp_all add: except_handler_def seq_def call_print_def modify_def split: option.splits)

lemma convert_kmz_skip:
  assumes "files w (out_tif_of (output_folder script_dir) (base_of kmz_path)) \<noteq> None"
  shows "convert_kmz lib script_dir kmz_path w = skip_existing lib (base_of kmz_path) w"
  using assms by (simp add: convert_kmz_def Let_def)

lemma convert_kmz_run:
  assumes "files w (out_tif_of (output_folder script_dir) (base_of kmz_path)) = None"
    and "py_print lib (Processing (base_of kmz_path)) = None"
  shows "convert_kmz lib script_dir kmz_path w =
           try_except
             (try_block lib (output_folder script_dir) kmz_path (base_of kmz_path)
                (out_tif_of (output_folder script_dir) (base_of kmz_path)))
             (except_handler lib (base_of kmz_path))
             (w\<lparr>stdout := stdout w @ [Processing (base_of kmz_path)]\<rparr>)"
  using assms by (simp add: convert_kmz_def Let_def seq_def call_print_def)

lemma try_except_failure:
  assumes "produce_geotiff lib out_folder kmz_path base out_tif w = (Inl e, w')"
  shows "try_except (try_block lib out_folder kmz_path base out_tif) (except_handler lib base) w =
           except_handler lib base e w'"
  using assms by (simp add: try_except_def try_block_def seq_def)

lemma try_except_success:
  assumes "produce_geotiff lib out_folder kmz_path base out_tif w = (Inr u, w')"
    and "py_print lib (Saved out_tif) = None"
  shows "try_except (try_block lib out_folder kmz_path base out_tif) (except_handler lib base) w =
           (Inr (), w'\<lparr>success_list := success_list w' @ [base],
                        stdout := stdout w' @ [Saved out_tif]\<rparr>)"
  using assms by (simp add: try_except_def try_block_def seq_def modify_def call_print_def)

lemma try_except_files:
  "files (snd (try_except (try_block lib out_folder kmz_path base out_tif)
                 (except_handler lib base) w)) =
   files (snd (produce_geotiff lib out_folder kmz_path base out_tif w))"
  by (cases "produce_geotiff lib out_folder kmz_path base out_tif w")
     (auto simp: try_except_def try_block_def seq_def modify_def call_print_def
        except_handler_fields split: sum.splits option.splits)

lemma convert_kmz_cases [case_names skip success failure]:
  fixes lib :: "'f lib" and script_dir kmz_path :: path and w :: "'f world"
  defines "base \<equiv> base_of kmz_path"
    and "out_folder \<equiv> output_folder script_dir"
  defines "out_tif \<equiv> out_tif_of out_folder base"
    and "w1 \<equiv> w\<lparr>stdout := stdout w @ [Processing base]\<rparr>"
  assumes prints: "\<forall>m. py_print lib m = None"
  obtains
    (skip) "files w out_tif \<noteq> None"
      and "convert_kmz lib script_dir kmz_path w =
             (Inr (), w\<lparr>stdout := stdout w @ [Skipping base],
                         skipped_list := skipped_list w @ [base]\<rparr>)"
  | (success) w3 where "files w out_tif = None"
      and "produce_geotiff lib out_folder kmz_path base out_tif w1 = (Inr (), w3)"
      and "convert_kmz lib script_dir kmz_path w =
             (Inr (), w3\<lparr>success_list := success_list w3 @ [base],
                          stdout := stdout w3 @ [Saved out_tif]\<rparr>)"
  | (failure) e w2 where "files w out_tif = None"
      and "produce_geotiff lib out_folder kmz_path base out_tif w1 = (Inl e, w2)"
      and "convert_kmz lib script_dir kmz_path w =
             (Inr (), w2\<lparr>failed_list := failed_list w2 @ [base],
                          stdout := stdout w2 @ [Failed base (str_of e)]\<rparr>)"
proof (cases "files w out_tif \<noteq> None")
  case True
  then have "convert_kmz lib script_dir kmz_path w = skip_existing lib base w"
    by (simp add: convert_kmz_skip out_tif_def out_folder_def base_def)
  with True skip show ?thesis
    by (simp add: skip_existing_returns prints)
next
  case False
  then have absent: "files w out_tif = None" by simp
  then have run: "convert_kmz lib script_dir kmz_path w =
      try_except (try_block lib out_folder kmz_path base out_tif) (except_handler lib base) w1"
    using convert_kmz_run [of w script_dir kmz_path lib] prints
    by (simp add: out_tif_def out_folder_def base_def w1_def)
  obtain r w2 where pg: "produce_geotiff lib out_folder kmz_path base out_tif w1 = (r, w2)"
    by (cases "produce_geotiff lib out_folder kmz_path base out_tif w1") auto
  show ?thesis
  proof (cases r)
    case (Inl e)
    with pg have pg': "produce_geotiff lib out_folder kmz_path base out_tif w1 = (Inl e, w2)"
      by simp
    have "convert_kmz lib script_dir kmz_path w =
             (Inr (), w2\<lparr>failed_list := failed_list w2 @ [base],
                          stdout := stdout w2 @ [Failed base (str_of e)]\<rparr>)"
      unfolding run try_except_failure [OF pg'] by (simp add: except_handler_returns prints)
    with absent pg' show ?thesis by (rule failure)
  next
    case (Inr u)
    with pg have pg': "produce_geotiff lib out_folder kmz_path base out_tif w1 = (Inr (), w2)"
      by simp
    have "convert_kmz lib script_dir kmz_path w =
             (Inr (), w2\<lparr>success_list := success_list w2 @ [base],
                          stdout := stdout w2 @ [Saved out_tif]\<rparr>)"
      unfolding run by (rule try_except_success [OF pg']) (simp add: prints)
    with absent pg' show ?thesis by (rule success)
  qed
qed

subsection \<open>The batch\<close>

lemma seq_returns: "m w = (Inr x, w') \<Longrightarrow> seq m k w = k x w'"
  by (simp add: seq_def)

lemma convert_kmz_lists:
  assumes "\<forall>m. py_print lib m = None"
  shows "fst (convert_kmz lib script_dir kmz_path w) = Inr ()
       \<and> mset (success_list (snd (convert_kmz lib script_dir kmz_path w))
               @ skipped_list (snd (convert_kmz lib script_dir kmz_path w))
               @ failed_list (snd (convert_kmz lib script_dir kmz_path w))) =
         mset (success_list w @ skipped_list w @ failed_list w) + {#base_of kmz_path#}"
proof (cases rule: convert_kmz_cases
    [OF assms, where script_dir = script_dir and kmz_path = kmz_path and w = w])
  case 1
  then show ?thesis by simp
next
  case (2 w3)
  from produce_geotiff_frame [OF 2(2)] 2(3) show ?thesis
    by (simp add: progress_def)
next
  case (3 e w2)
  from produce_geotiff_frame [OF 3(2)] 3(3) show ?thesis
    by (simp add: progress_def)
qed

lemma convert_all_lists:
  assumes "\<forall>m. py_print lib m = None"
  shows "fst (convert_all lib script_dir kmz_files w) = Inr ()
       \<and> mset (success_list (snd (convert_all lib script_dir kmz_files w))
               @ skipped_list (snd (convert_all lib script_dir kmz_files w))
               @ failed_list (snd (convert_all lib script_dir kmz_files w))) =
         mset (success_list w @ skipped_list w @ failed_list w)
         + mset (map (\<lambda>kmz. base_of (join script_dir kmz)) kmz_files)"
proof (induction kmz_files arbitrary: w)
  case Nil
  then show ?case by (simp add: ret_def)
next
  case (Cons kmz rest)
  let ?r = "convert_kmz lib script_dir (join script_dir kmz) w"
  from convert_kmz_lists [OF assms, of script_dir "join script_dir kmz" w]
  have one: "fst ?r = Inr ()"
    and lists: "mset (success_list (snd ?r) @ skipped_list (snd ?r) @ failed_list (snd ?r)) =
         mset (success_list w @ skipped_list w @ failed_list w)
         + {#base_of (join script_dir kmz)#}"
    by simp_all
  from one have "?r = (Inr (), snd ?r)" by (simp add: prod_eq_iff)
  then have step: "convert_all lib script_dir (kmz # rest) w =
                   convert_all lib script_dir rest (snd ?r)"
    unfolding convert_all.simps by (rule seq_returns)
  show ?case
    unfolding step using Cons.IH [of "snd ?r"] lists by simp
qed

lemma print_all_returns:
  assumes "\<forall>m. py_print lib m = None"
  shows "print_all lib ms w = (Inr (), w\<lparr>stdout := stdout w @ ms\<rparr>)"
  using assms
  by (induction ms arbitrary: w) (simp_all add: ret_def seq_def call_print_def)

lemma log_keeps_lists:
  "success_list (snd (log_successful_conversions lib script_dir timestamp w)) = success_list w"
  "skipped_list (snd (log_successful_conversions lib script_dir timestamp w)) = skipped_list w"
  "failed_list (snd (log_successful_conversions lib script_dir timestamp w)) = failed_list w"
  "stdout (snd (log_successful_conversions lib script_dir timestamp w)) = stdout w"
  by (simp_all add: log_successful_conversions_def record_call_def Let_def
      split: option.splits prod.splits)

lemma main_with_archives:
  assumes "\<forall>m. py_print lib m = None"
    and "os_listdir lib (files w) script_dir = Inr names"
    and "filter (\<lambda>f. endswith (lower f) ''.kmz'') names \<noteq> []"
  shows "main lib script_dir timestamp w =
           log_successful_conversions lib script_dir timestamp
             ((snd (convert_all lib script_dir (filter (\<lambda>f. endswith (lower f) ''.kmz'') names)
                 (record_call (ListDir script_dir) w)))
              \<lparr>stdout :=
                 stdout (snd (convert_all lib script_dir
                           (filter (\<lambda>f. endswith (lower f) ''.kmz'') names)
                           (record_call (ListDir script_dir) w)))
                 @ summary script_dir
                     (snd (convert_all lib script_dir
                        (filter (\<lambda>f. endswith (lower f) ''.kmz'') names)
                        (record_call (ListDir script_dir) w)))\<rparr>)"
proof -
  let ?kmz_files = "filter (\<lambda>f. endswith (lower f) ''.kmz'') names"
  let ?r = "convert_all lib script_dir ?kmz_files (record_call (ListDir script_dir) w)"
  from convert_all_lists [OF assms(1), of script_dir ?kmz_files "record_call (ListDir script_dir) w"]
  have "fst ?r = Inr ()" by simp
  then have r: "?r = (Inr (), snd ?r)" by (simp add: prod_eq_iff)
  have "main lib script_dir timestamp w =
        seq (convert_all lib script_dir ?kmz_files) (\<lambda>_.
          seq (print_summary lib script_dir) (\<lambda>_.
            log_successful_conversions lib script_dir timestamp))
          (record_call (ListDir script_dir) w)"
    using assms(2,3) by (simp add: main_def seq_def call_listdir_def Let_def)
  also have "\<dots> = seq (print_summary lib script_dir) (\<lambda>_.
            log_successful_conversions lib script_dir timestamp) (snd ?r)"
    using r by (rule seq_returns)
  also have "\<dots> = log_successful_conversions lib script_dir timestamp
             ((snd ?r)\<lparr>stdout := stdout (snd ?r) @ summary script_dir (snd ?r)\<rparr>)"
    by (simp add: seq_def print_summary_def print_all_returns [OF assms(1)])
  finally show ?thesis .
qed


lemma write_all_returns:
  "\<forall>s\<in>set ss. file_write lib s = None \<Longrightarrow> write_all lib ss = (None, concat ss)"
  by (induction ss) simp_all

lemma log_appends_section:
  assumes "success_list w \<noteq> []"
    and "open_append lib (files w) (log_file script_dir) = None"
    and "\<forall>s\<in>set (log_lines timestamp (sorted_list_of_set (set (success_list w)))).
           file_write lib s = None"
  shows "files (snd (log_successful_conversions lib script_dir timestamp w)) =
           (files w)(log_file script_dir \<mapsto>
              File (file_bytes (files w) (log_file script_dir)
                    @ concat (log_lines timestamp (sorted_list_of_set (set (success_list w))))))"
  using assms(1,2) write_all_returns [OF assms(3)]
  by (simp add: log_successful_conversions_def record_call_def Let_def)

lemma file_bytes_upd: "file_bytes (f(p \<mapsto> File s)) p = s"
  by (simp add: file_bytes_def)

subsection \<open>Parsing coordinates\<close>

lemma map_result_Inr_iff: "map_result f xs = Inr ys \<longleftrightarrow> map f xs = map Inr ys"
proof (induction xs arbitrary: ys)
  case Nil
  then show ?case by auto
next
  case (Cons x xs)
  show ?case
  proof (cases "f x")
    case (Inl e)
    then show ?thesis by (cases ys) auto
  next
    case (Inr y)
    show ?thesis
    proof (cases "map_result f xs")
      case (Inl e)
      with Cons.IH have "\<And>zs. map f xs \<noteq> map Inr zs" by auto
      with Inl Inr show ?thesis by (cases ys) auto
    next
      case inner: (Inr zs)
      from Cons.IH [of zs] inner have eq: "map f xs = map Inr zs" by simp
      have "(map Inr zs :: (error + _) list) = map Inr ys' \<longleftrightarrow> zs = ys'" for ys'
        by (simp add: inj_map_eq_map)
      with inner Inr eq show ?thesis by (cases ys) auto
    qed
  qed
qed

lemma map_result_Inl: "map_result f xs = Inl e \<Longrightarrow> \<exists>x\<in>set xs. f x = Inl e"
  by (induction xs) (auto split: sum.splits)

lemma map_result_accepts:
  "(\<exists>ys. map_result f xs = Inr ys) \<longleftrightarrow> (\<forall>x\<in>set xs. \<exists>y. f x = Inr y)"
  by (induction xs) (auto split: sum.splits)

lemma parse_point_accepts:
  "(\<exists>p. parse_point pf tok = Inr p) \<longleftrightarrow>
   (\<forall>fld\<in>set (split_on CHR '','' tok). \<exists>v. pf fld = Inr v)"
  by (simp add: parse_point_def map_result_accepts)

lemma parse_coords_accepts:
  "(\<exists>coords. parse_coords pf text = Inr coords) \<longleftrightarrow>
   (\<forall>tok\<in>set (split_ws (strip text)). \<forall>fld\<in>set (split_on CHR '','' tok). \<exists>v. pf fld = Inr v)"
  by (simp add: parse_coords_def map_result_accepts parse_point_accepts)

lemma parse_coords_error:
  assumes "parse_coords pf text = Inl e"
  shows "\<exists>tok\<in>set (split_ws (strip text)). \<exists>fld\<in>set (split_on CHR '','' tok). pf fld = Inl e"
proof -
  from assms obtain tok where "tok \<in> set (split_ws (strip text))" and "parse_point pf tok = Inl e"
    unfolding parse_coords_def by (blast dest: map_result_Inl)
  then show ?thesis unfolding parse_point_def by (blast dest: map_result_Inl)
qed

lemma parse_point_length:
  assumes "parse_point pf tok = Inr p"
  shows "length p = length (split_on CHR '','' tok)"
proof -
  from assms have "map pf (split_on CHR '','' tok) = map Inr p"
    by (simp add: parse_point_def map_result_Inr_iff)
  then show ?thesis by (metis length_map)
qed

lemma corner_gcp_eq:
  assumes "k < length coords"
  shows "corner_gcp coords k pixel line =
           (if 2 \<le> length (coords ! k)
            then Inr (gdal_GCP (coords ! k ! 0) (coords ! k ! 1) 0 pixel line)
            else Inl (IndexError ''tuple index out of range''))"
  using assms by (auto simp: corner_gcp_def list_index_def tuple_index_def and_then_def)

lemma make_gcps_accepts:
  assumes "length coords = 4"
  shows "(\<exists>gcps. make_gcps coords W H = Inr gcps) \<longleftrightarrow> (\<forall>p\<in>set coords. 2 \<le> length p)"
proof -
  from assms obtain p0 p1 p2 p3 where c: "coords = [p0, p1, p2, p3]"
    by (auto simp: length_Suc_conv numeral_eq_Suc)
  show ?thesis
    unfolding c by (simp add: make_gcps_def corner_gcp_eq and_then_def)
qed

lemma make_gcps_uses_first_two:
  assumes "make_gcps coords W H = Inr gcps"
  shows "map GCPX gcps = map (\<lambda>k. coords ! k ! 0) [0, 1, 2, 3] \<and>
         map GCPY gcps = map (\<lambda>k. coords ! k ! 1) [0, 1, 2, 3]"
  using assms
  by (auto simp: make_gcps_def corner_gcp_def list_index_def tuple_index_def and_then_def
      gdal_GCP_def split: if_splits)


subsection \<open>Ground-control points\<close>

lemma corner_gcp_at:
  "k < length coords \<Longrightarrow> coords ! k = x # y # r \<Longrightarrow>
   corner_gcp coords k pixel line = Inr (gdal_GCP x y 0 pixel line)"
  by (simp add: corner_gcp_def list_index_def tuple_index_def and_then_def)

lemma make_gcps_quad:
  "make_gcps [x0 # y0 # r0, x1 # y1 # r1, x2 # y2 # r2, x3 # y3 # r3] W H =
     Inr [\<lparr>GCPX = x0, GCPY = y0, GCPZ = 0, GCPPixel = 0, GCPLine = H\<rparr>,
          \<lparr>GCPX = x1, GCPY = y1, GCPZ = 0, GCPPixel = W, GCPLine = H\<rparr>,
          \<lparr>GCPX = x2, GCPY = y2, GCPZ = 0, GCPPixel = W, GCPLine = 0\<rparr>,
          \<lparr>GCPX = x3, GCPY = y3, GCPZ = 0, GCPPixel = 0, GCPLine = 0\<rparr>]"
  by (simp add: make_gcps_def corner_gcp_at and_then_def gdal_GCP_def)

text \<open>
  Claim C1. When the image opens as a dataset of width \<open>W\<close> and height \<open>H\<close>, and each
  of the four corner points has a longitude and a latitude (and possibly more fields),
  lines 75-80 build exactly four ground-control points: corner 0 at pixel \<open>(0, H)\<close>,
  corner 1 at \<open>(W, H)\<close>, corner 2 at \<open>(W, 0)\<close>, corner 3 at \<open>(0, 0)\<close>, each with
  \<open>z = 0\<close>; and these four are what \<^verbatim>\<open>gdal.Translate\<close> is called with.
\<close>

theorem rectify_binds_corners_to_pixel_corners:
  assumes "gdal_open lib (files w) img_file = Inr (Some ds)"
    and "RasterXSize ds = W" and "RasterYSize ds = H"
  shows "make_gcps [x0 # y0 # r0, x1 # y1 # r1, x2 # y2 # r2, x3 # y3 # r3] W H =
           Inr [\<lparr>GCPX = x0, GCPY = y0, GCPZ = 0, GCPPixel = 0, GCPLine = H\<rparr>,
                \<lparr>GCPX = x1, GCPY = y1, GCPZ = 0, GCPPixel = W, GCPLine = H\<rparr>,
                \<lparr>GCPX = x2, GCPY = y2, GCPZ = 0, GCPPixel = W, GCPLine = 0\<rparr>,
                \<lparr>GCPX = x3, GCPY = y3, GCPZ = 0, GCPPixel = 0, GCPLine = 0\<rparr>]
       \<and> calls (snd (rectify lib img_file
                  [x0 # y0 # r0, x1 # y1 # r1, x2 # y2 # r2, x3 # y3 # r3] tmp_tif w)) =
           calls w @ [GdalOpen img_file,
             GdalTranslate tmp_tif ds
               [\<lparr>GCPX = x0, GCPY = y0, GCPZ = 0, GCPPixel = 0, GCPLine = H\<rparr>,
                \<lparr>GCPX = x1, GCPY = y1, GCPZ = 0, GCPPixel = W, GCPLine = H\<rparr>,
                \<lparr>GCPX = x2, GCPY = y2, GCPZ = 0, GCPPixel = W, GCPLine = 0\<rparr>,
                \<lparr>GCPX = x3, GCPY = y3, GCPZ = 0, GCPPixel = 0, GCPLine = 0\<rparr>]
               ''EPSG:4326'']"
  using assms
  by (simp add: make_gcps_quad rectify_def seq_def call_gdal_open_def lift_def
      call_translate_def record_call_def Let_def split: sum.splits)

theorem rectify_binds_corners_to_pixel_corners_witness:
  "gdal_open (example_lib ''1,2 3,4 5,6 7,8'' True utf8_console) (files (initial_world Map.empty)) ''img.png'' =
     Inr (Some \<lparr>ds_file = ''img.png'', RasterXSize = 100, RasterYSize = 200\<rparr>)
   \<and> calls (snd (rectify (example_lib ''1,2 3,4 5,6 7,8'' True utf8_console) ''img.png''
        [[1, 2, 0], [3, 4, 0], [5, 6], [7, 8]] ''t.tif'' (initial_world Map.empty))) =
       [GdalOpen ''img.png'',
        GdalTranslate ''t.tif'' \<lparr>ds_file = ''img.png'', RasterXSize = 100, RasterYSize = 200\<rparr>
          [\<lparr>GCPX = 1, GCPY = 2, GCPZ = 0, GCPPixel = 0, GCPLine = 200\<rparr>,
           \<lparr>GCPX = 3, GCPY = 4, GCPZ = 0, GCPPixel = 100, GCPLine = 200\<rparr>,
           \<lparr>GCPX = 5, GCPY = 6, GCPZ = 0, GCPPixel = 100, GCPLine = 0\<rparr>,
           \<lparr>GCPX = 7, GCPY = 8, GCPZ = 0, GCPPixel = 0, GCPLine = 0\<rparr>]
          ''EPSG:4326'']"
  using rectify_binds_corners_to_pixel_corners
    [of "example_lib ''1,2 3,4 5,6 7,8'' True utf8_console" "initial_world Map.empty" "''img.png''"
        "\<lparr>ds_file = ''img.png'', RasterXSize = 100, RasterYSize = 200\<rparr>" 100 200
        1 2 "[0]" 3 4 "[0]" 5 6 "[]" 7 8 "[]" "''t.tif''"]
  by (simp add: example_lib_def initial_world_def)

subsection \<open>The outcome list of one conversion\<close>

text \<open>
  Claim C10 at a failing input: a console that cannot encode the check mark of line 106
  (an ASCII or cp1252 console). The archive converts: the output is written, the
  intermediate raster is removed, and line 105 appends the base name to the success list.
  Then the \<^verbatim>\<open>print\<close> of line 106 raises \<^verbatim>\<open>UnicodeEncodeError\<close> inside the \<^verbatim>\<open>try\<close>
  statement; the handler appends the same base name to the failed list (line 109), and
  its own \<^verbatim>\<open>print\<close> (line 110) raises again, outside any handler, so the exception leaves
  \<^verbatim>\<open>convert_kmz\<close>: the name is on two lists. And on a UTF-8 console, an archive whose
  name holds a byte that is never part of UTF-8 (0xFF, which \<^verbatim>\<open>os.listdir\<close> hands over
  as a lone surrogate) makes the \<^verbatim>\<open>print\<close> of line 31 raise before the \<^verbatim>\<open>try\<close>
  statement is entered: the name is on no list.
\<close>

theorem success_line_failure_records_archive_twice:
  "py_print (example_lib ''1,2 3,4 5,6 7,8'' True ascii_console)
     (Saved ''/s/Converted GeoTIFFs/a.tif'') =
     Some (UnicodeEncodeError ''ordinal not in range(128)'')
   \<and> fst (convert_kmz (example_lib ''1,2 3,4 5,6 7,8'' True ascii_console) ''/s'' ''/s/a.KMZ''
        (initial_world Map.empty)) = Inl (UnicodeEncodeError ''ordinal not in range(128)'')
   \<and> success_list (snd (convert_kmz (example_lib ''1,2 3,4 5,6 7,8'' True ascii_console) ''/s''
        ''/s/a.KMZ'' (initial_world Map.empty))) = [''a'']
   \<and> failed_list (snd (convert_kmz (example_lib ''1,2 3,4 5,6 7,8'' True ascii_console) ''/s''
        ''/s/a.KMZ'' (initial_world Map.empty))) = [''a'']
   \<and> skipped_list (snd (convert_kmz (example_lib ''1,2 3,4 5,6 7,8'' True ascii_console) ''/s''
        ''/s/a.KMZ'' (initial_world Map.empty))) = []
   \<and> files (snd (convert_kmz (example_lib ''1,2 3,4 5,6 7,8'' True ascii_console) ''/s''
        ''/s/a.KMZ'' (initial_world Map.empty))) ''/s/Converted GeoTIFFs/a.tif'' =
       Some (File ''GEOTIFF'')
   \<and> fst (convert_kmz (example_lib ''1,2 3,4 5,6 7,8'' True utf8_console) ''/s''
        (''/s/'' @ [CHR 0xFF] @ ''.kmz'') (initial_world Map.empty)) =
       Inl (UnicodeEncodeError ''surrogates not allowed'')
   \<and> success_list (snd (convert_kmz (example_lib ''1,2 3,4 5,6 7,8'' True utf8_console) ''/s''
        (''/s/'' @ [CHR 0xFF] @ ''.kmz'') (initial_world Map.empty))) = []
   \<and> failed_list (snd (convert_kmz (example_lib ''1,2 3,4 5,6 7,8'' True utf8_console) ''/s''
        (''/s/'' @ [CHR 0xFF] @ ''.kmz'') (initial_world Map.empty))) = []
   \<and> skipped_list (snd (convert_kmz (example_lib ''1,2 3,4 5,6 7,8'' True utf8_console) ''/s''
        (''/s/'' @ [CHR 0xFF] @ ''.kmz'') (initial_world Map.empty))) = []"
  by code_simp

text \<open>
  Claim C2 at a failing input: the output of the archive exists, and the console cannot
  encode the symbol of the skip notice. The \<^verbatim>\<open>print\<close> of line 27 raises
  \<^verbatim>\<open>UnicodeEncodeError\<close> before line 28 appends to the skipped list, and outside any
  \<^verbatim>\<open>try\<close> statement: no list records the archive, the exception leaves
  \<^verbatim>\<open>convert_kmz\<close>, and the loop of \<^verbatim>\<open>main\<close> ends there, without a library call for
  the archive that follows.
\<close>

theorem skip_notice_failure_records_nothing:
  "py_print (example_lib ''1,2 3,4 5,6 7,8'' True ascii_console) (Skipping ''a'') =
     Some (UnicodeEncodeError ''ordinal not in range(128)'')
   \<and> files (initial_world [''/s/Converted GeoTIFFs/a.tif'' \<mapsto> File ''old''])
       (out_tif_of (output_folder ''/s'') (base_of ''/s/a.KMZ'')) = Some (File ''old'')
   \<and> fst (convert_kmz (example_lib ''1,2 3,4 5,6 7,8'' True ascii_console) ''/s'' ''/s/a.KMZ''
        (initial_world [''/s/Converted GeoTIFFs/a.tif'' \<mapsto> File ''old''])) =
       Inl (UnicodeEncodeError ''ordinal not in range(128)'')
   \<and> skipped_list (snd (convert_kmz (example_lib ''1,2 3,4 5,6 7,8'' True ascii_console) ''/s''
        ''/s/a.KMZ'' (initial_world [''/s/Converted GeoTIFFs/a.tif'' \<mapsto> File ''old'']))) = []
   \<and> success_list (snd (convert_kmz (example_lib ''1,2 3,4 5,6 7,8'' True ascii_console) ''/s''
        ''/s/a.KMZ'' (initial_world [''/s/Converted GeoTIFFs/a.tif'' \<mapsto> File ''old'']))) = []
   \<and> failed_list (snd (convert_kmz (example_lib ''1,2 3,4 5,6 7,8'' True ascii_console) ''/s''
        ''/s/a.KMZ'' (initial_world [''/s/Converted GeoTIFFs/a.tif'' \<mapsto> File ''old'']))) = []
   \<and> stdout (snd (convert_kmz (example_lib ''1,2 3,4 5,6 7,8'' True ascii_console) ''/s''
        ''/s/a.KMZ'' (initial_world [''/s/Converted GeoTIFFs/a.tif'' \<mapsto> File ''old'']))) = []
   \<and> fst (convert_all (example_lib ''1,2 3,4 5,6 7,8'' True ascii_console) ''/s''
        [''a.KMZ'', ''b.kmz'']
        (initial_world [''/s/Converted GeoTIFFs/a.tif'' \<mapsto> File ''old''])) =
       Inl (UnicodeEncodeError ''ordinal not in range(128)'')
   \<and> calls (snd (convert_all (example_lib ''1,2 3,4 5,6 7,8'' True ascii_console) ''/s''
        [''a.KMZ'', ''b.kmz'']
        (initial_world [''/s/Converted GeoTIFFs/a.tif'' \<mapsto> File ''old'']))) = []"
  by code_simp

subsection \<open>Files left behind\<close>

text \<open>
  Claim C4, as the script behaves. The script never deletes the extraction directory
  \<^verbatim>\<open>OUTPUT_FOLDER/_temp/<base>\<close>: whenever a conversion is not skipped, its progress
  line prints and \<^verbatim>\<open>os.makedirs\<close> returns, the directory still exists when
  \<^verbatim>\<open>convert_kmz\<close> is left, whether the conversion succeeded, failed, or was left by an
  exception of a later \<^verbatim>\<open>print\<close>.
\<close>

theorem working_directory_remains_after_conversion:
  assumes "files w (out_tif_of (output_folder script_dir) (base_of kmz_path)) = None"
    and "py_print lib (Processing (base_of kmz_path)) = None"
    and "os_makedirs lib (files w)
           (tmp_dir_of (output_folder script_dir) (base_of kmz_path)) = None"
  shows "files (snd (convert_kmz lib script_dir kmz_path w))
           (tmp_dir_of (output_folder script_dir) (base_of kmz_path)) \<noteq> None"
proof -
  let ?w1 = "w\<lparr>stdout := stdout w @ [Processing (base_of kmz_path)]\<rparr>"
  have mk: "os_makedirs lib (files ?w1)
              (tmp_dir_of (output_folder script_dir) (base_of kmz_path)) = None"
    using assms(3) by simp
  have "files (snd (convert_kmz lib script_dir kmz_path w)) =
        files (snd (produce_geotiff lib (output_folder script_dir) kmz_path (base_of kmz_path)
                      (out_tif_of (output_folder script_dir) (base_of kmz_path)) ?w1))"
    unfolding convert_kmz_run [OF assms(1,2)] by (rule try_except_files)
  with produce_geotiff_keeps_tmp_dir [OF mk sep_notin_base_of] show ?thesis by simp
qed

theorem working_directory_remains_after_conversion_witness:
  "files (initial_world Map.empty) (tmp_dir_of (output_folder ''/s'') (base_of ''/s/bad.kmz'')) = None
   \<and> files (snd (convert_kmz (example_lib ''1,2 3,4 5,6 7,8'' True utf8_console) ''/s''
        ''/s/bad.kmz'' (initial_world Map.empty)))
        (tmp_dir_of (output_folder ''/s'') (base_of ''/s/bad.kmz'')) \<noteq> None"
proof -
  let ?lib = "example_lib ''1,2 3,4 5,6 7,8'' True utf8_console"
  have a: "files (initial_world Map.empty)
             (out_tif_of (output_folder ''/s'') (base_of ''/s/bad.kmz'')) = None"
    by simp
  have p: "py_print ?lib (Processing (base_of ''/s/bad.kmz'')) = None" by code_simp
  have b: "os_makedirs ?lib (files (initial_world Map.empty))
             (tmp_dir_of (output_folder ''/s'') (base_of ''/s/bad.kmz'')) = None"
    by (simp add: example_lib_def)
  from working_directory_remains_after_conversion [OF a p b] show ?thesis by simp
qed

text \<open>
  Claim C4 as stated fails: after a successful conversion, and after one that fails on
  the point count, the extraction directory is still there (with the extracted
  descriptor in it).
\<close>

theorem working_directory_destroyed_counterexample:
  "success_list (snd (convert_kmz (example_lib ''1,2 3,4 5,6 7,8'' True utf8_console) ''/s''
     ''/s/a.KMZ'' (initial_world Map.empty))) = [''a'']
   \<and> files (snd (convert_kmz (example_lib ''1,2 3,4 5,6 7,8'' True utf8_console) ''/s''
        ''/s/a.KMZ'' (initial_world Map.empty))) ''/s/Converted GeoTIFFs/_temp/a'' =
       Some Directory
   \<and> files (snd (convert_kmz (example_lib ''1,2 3,4 5,6 7,8'' True utf8_console) ''/s''
        ''/s/a.KMZ'' (initial_world Map.empty))) ''/s/Converted GeoTIFFs/_temp/a/doc.kml'' =
       Some (File ''<kml/>'')
   \<and> failed_list (snd (convert_kmz (example_lib ''1,2 3,4 5,6'' True utf8_console) ''/s''
     ''/s/a.KMZ'' (initial_world Map.empty))) = [''a'']
   \<and> files (snd (convert_kmz (example_lib ''1,2 3,4 5,6'' True utf8_console) ''/s''
        ''/s/a.KMZ'' (initial_world Map.empty))) ''/s/Converted GeoTIFFs/_temp/a'' =
       Some Directory"
  by code_simp

text \<open>
  Claim C5 at a failing input: the archive unpacks, the descriptor is well formed, the
  image opens and \<^verbatim>\<open>gdal.Translate\<close> writes the intermediate raster, then
  \<^verbatim>\<open>gdal.Warp\<close> raises. The handler of lines 108-110 records the failure and returns;
  \<^verbatim>\<open>os.remove\<close> of line 104 is never reached, and the intermediate raster stays on disk.
\<close>

theorem warp_failure_leaves_intermediate_raster:
  "fst (convert_kmz (example_lib ''1,2 3,4 5,6 7,8'' False utf8_console) ''/s'' ''/s/a.KMZ''
     (initial_world Map.empty)) = Inr ()
   \<and> failed_list (snd (convert_kmz (example_lib ''1,2 3,4 5,6 7,8'' False utf8_console) ''/s''
     ''/s/a.KMZ'' (initial_world Map.empty))) = [''a'']
   \<and> stdout (snd (convert_kmz (example_lib ''1,2 3,4 5,6 7,8'' False utf8_console) ''/s''
     ''/s/a.KMZ'' (initial_world Map.empty))) = [Processing ''a'', Failed ''a'' ''warp failed'']
   \<and> files (snd (convert_kmz (example_lib ''1,2 3,4 5,6 7,8'' False utf8_console) ''/s''
        ''/s/a.KMZ'' (initial_world Map.empty))) ''/s/Converted GeoTIFFs/a_with_gcps.tif'' =
       Some (File ''GCPTIFF'')
   \<and> Remove ''/s/Converted GeoTIFFs/a_with_gcps.tif'' \<notin>
       set (calls (snd (convert_kmz (example_lib ''1,2 3,4 5,6 7,8'' False utf8_console) ''/s''
        ''/s/a.KMZ'' (initial_world Map.empty))))"
  by code_simp

subsection \<open>Failures\<close>

text \<open>
  Claim C3. Take a conversion that is not skipped, whose progress line prints, and that
  gets as far as a parsed descriptor \<open>root\<close>. If the coordinate text of its
  quadrilateral parses to a list of tuples whose length is not 4 (three or five, say),
  the conversion fails with \<^verbatim>\<open>Exception("LatLonQuad does not have 4 points")\<close>: the
  base name goes to the failed list, the status line (when the console takes it) carries
  that message, \<^verbatim>\<open>convert_kmz\<close> returns, and the conversion adds no
  \<^verbatim>\<open>gdal.Translate\<close> and no \<^verbatim>\<open>gdal.Warp\<close> call to the trace.
\<close>

theorem wrong_point_count_fails_before_any_raster_is_written:
  assumes absent: "files w (out_tif_of (output_folder script_dir) (base_of kmz_path)) = None"
    and announced: "py_print lib (Processing (base_of kmz_path)) = None"
    and load: "load_descriptor lib kmz_path
             (tmp_dir_of (output_folder script_dir) (base_of kmz_path))
             (w\<lparr>stdout := stdout w @ [Processing (base_of kmz_path)]\<rparr>) = (Inr root, w1)"
    and quad: "find_quad_coordinates root = Some (Element (Some t))"
    and parse: "parse_coords (py_float lib) t = Inr coords"
    and count: "length coords \<noteq> 4"
    and reported: "py_print lib
             (Failed (base_of kmz_path) ''LatLonQuad does not have 4 points'') = None"
  shows "convert_kmz lib script_dir kmz_path w =
           (Inr (), w1\<lparr>failed_list := failed_list w1 @ [base_of kmz_path],
                        stdout := stdout w1 @
                          [Failed (base_of kmz_path) ''LatLonQuad does not have 4 points'']\<rparr>)
       \<and> failed_list (snd (convert_kmz lib script_dir kmz_path w)) =
           failed_list w @ [base_of kmz_path]
       \<and> success_list (snd (convert_kmz lib script_dir kmz_path w)) = success_list w
       \<and> stdout (snd (convert_kmz lib script_dir kmz_path w)) =
           stdout w @ [Processing (base_of kmz_path),
                       Failed (base_of kmz_path) ''LatLonQuad does not have 4 points'']
       \<and> filter is_raster_write (calls (snd (convert_kmz lib script_dir kmz_path w))) =
           filter is_raster_write (calls w)"
proof -
  let ?e = "Exception ''LatLonQuad does not have 4 points''"
  let ?w0 = "w\<lparr>stdout := stdout w @ [Processing (base_of kmz_path)]\<rparr>"
  from read_quad_wrong_count [OF quad parse count]
  have rq: "read_quad lib root = Inl ?e" .
  from produce_geotiff_after_load [OF load rq]
  have pg: "produce_geotiff lib (output_folder script_dir) kmz_path (base_of kmz_path)
              (out_tif_of (output_folder script_dir) (base_of kmz_path)) ?w0 = (Inl ?e, w1)" .
  have res: "convert_kmz lib script_dir kmz_path w =
           (Inr (), w1\<lparr>failed_list := failed_list w1 @ [base_of kmz_path],
                        stdout := stdout w1 @
                          [Failed (base_of kmz_path) ''LatLonQuad does not have 4 points'']\<rparr>)"
    unfolding convert_kmz_run [OF absent announced] try_except_failure [OF pg]
    using reported by (simp add: except_handler_returns)
  have fr: "progress (tmp_tif_of (output_folder script_dir) (base_of kmz_path)) ?w0 w1"
    using produce_geotiff_frame [OF pg] .
  have "filter is_raster_write (calls w1) = filter is_raster_write (calls ?w0)"
    using load_descriptor_no_raster_write
      [of lib kmz_path "tmp_dir_of (output_folder script_dir) (base_of kmz_path)" ?w0] load
    by simp
  with res fr show ?thesis by (simp add: progress_def)
qed

theorem wrong_point_count_fails_before_any_raster_is_written_witness:
  "parse_coords (py_float (example_lib ''1,2 3,4 5,6'' True utf8_console)) ''1,2 3,4 5,6'' =
     Inr [[1, 2], [3, 4], [5, 6]]
   \<and> fst (convert_kmz (example_lib ''1,2 3,4 5,6'' True utf8_console) ''/s'' ''/s/a.KMZ''
        (initial_world Map.empty)) = Inr ()
   \<and> failed_list (snd (convert_kmz (example_lib ''1,2 3,4 5,6'' True utf8_console) ''/s''
        ''/s/a.KMZ'' (initial_world Map.empty))) = [''a'']
   \<and> success_list (snd (convert_kmz (example_lib ''1,2 3,4 5,6'' True utf8_console) ''/s''
        ''/s/a.KMZ'' (initial_world Map.empty))) = []
   \<and> stdout (snd (convert_kmz (example_lib ''1,2 3,4 5,6'' True utf8_console) ''/s''
        ''/s/a.KMZ'' (initial_world Map.empty))) =
       [Processing ''a'', Failed ''a'' ''LatLonQuad does not have 4 points'']
   \<and> filter is_raster_write (calls (snd (convert_kmz
        (example_lib ''1,2 3,4 5,6'' True utf8_console) ''/s'' ''/s/a.KMZ''
        (initial_world Map.empty)))) = []"
proof -
  let ?lib = "example_lib ''1,2 3,4 5,6'' True utf8_console"
  let ?w = "initial_world Map.empty :: int world"
  have b: "base_of ''/s/a.KMZ'' = ''a''" by code_simp
  have absent: "files ?w (out_tif_of (output_folder ''/s'') (base_of ''/s/a.KMZ'')) = None"
    by simp
  have announced: "py_print ?lib (Processing (base_of ''/s/a.KMZ'')) = None" by code_simp
  have reported: "py_print ?lib
      (Failed (base_of ''/s/a.KMZ'') ''LatLonQuad does not have 4 points'') = None"
    by code_simp
  let ?run = "load_descriptor ?lib ''/s/a.KMZ''
             (tmp_dir_of (output_folder ''/s'') (base_of ''/s/a.KMZ''))
             (?w\<lparr>stdout := stdout ?w @ [Processing (base_of ''/s/a.KMZ'')]\<rparr>)"
  have "fst ?run = Inr (example_root ''1,2 3,4 5,6'')" by code_simp
  then have load: "?run = (Inr (example_root ''1,2 3,4 5,6''), snd ?run)"
    by (simp add: prod_eq_iff)
  have quad: "find_quad_coordinates (example_root ''1,2 3,4 5,6'') =
                Some (Element (Some ''1,2 3,4 5,6''))"
    by (simp add: example_root_def)
  have parse: "parse_coords (py_float ?lib) ''1,2 3,4 5,6'' = Inr [[1, 2], [3, 4], [5, 6]]"
    by code_simp
  have count: "length [[1, 2], [3, 4], [5, 6 :: int]] \<noteq> 4" by simp
  note run = wrong_point_count_fails_before_any_raster_is_written
         [OF absent announced load quad parse count reported]
  from run [THEN conjunct1] have "fst (convert_kmz ?lib ''/s'' ''/s/a.KMZ'' ?w) = Inr ()"
    by simp
  with run [THEN conjunct2] parse b show ?thesis by simp
qed




subsection \<open>Which coordinate tokens are accepted\<close>

text \<open>
  Claim C8, as the script behaves. Line 58 accepts a token exactly when every one of its
  comma-separated fields is a number, however many fields there are; on a field that is
  not a number it fails with the exception \<^verbatim>\<open>float\<close> raises for that field; an accepted
  point has one number per field. Lines 75-80 then accept a quadrilateral of four parsed
  points exactly when each point has two numbers or more: the first two are the longitude
  and the latitude of the ground-control point, and every further field is ignored.
\<close>

theorem coordinate_points_need_two_or_more_numeric_fields:
  "((\<exists>p. parse_point pf tok = Inr p) \<longleftrightarrow>
      (\<forall>fld\<in>set (split_on CHR '','' tok). \<exists>v. pf fld = Inr v))
   \<and> (parse_point pf tok = Inl e \<longrightarrow> (\<exists>fld\<in>set (split_on CHR '','' tok). pf fld = Inl e))
   \<and> (parse_point pf tok = Inr p \<longrightarrow> length p = length (split_on CHR '','' tok))
   \<and> (length coords = 4 \<longrightarrow>
        ((\<exists>gcps. make_gcps coords W H = Inr gcps) \<longleftrightarrow> (\<forall>p\<in>set coords. 2 \<le> length p)))
   \<and> (make_gcps coords W H = Inr gcps \<longrightarrow>
        map GCPX gcps = map (\<lambda>k. coords ! k ! 0) [0, 1, 2, 3] \<and>
        map GCPY gcps = map (\<lambda>k. coords ! k ! 1) [0, 1, 2, 3])"
proof (intro conjI impI)
  show "(\<exists>p. parse_point pf tok = Inr p) \<longleftrightarrow>
      (\<forall>fld\<in>set (split_on CHR '','' tok). \<exists>v. pf fld = Inr v)"
    by (rule parse_point_accepts)
next
  assume "parse_point pf tok = Inl e"
  then show "\<exists>fld\<in>set (split_on CHR '','' tok). pf fld = Inl e"
    unfolding parse_point_def by (rule map_result_Inl)
next
  assume "parse_point pf tok = Inr p"
  then show "length p = length (split_on CHR '','' tok)" by (rule parse_point_length)
next
  assume "length coords = 4"
  then show "(\<exists>gcps. make_gcps coords W H = Inr gcps) \<longleftrightarrow> (\<forall>p\<in>set coords. 2 \<le> length p)"
    by (rule make_gcps_accepts)
next
  assume g: "make_gcps coords W H = Inr gcps"
  from make_gcps_uses_first_two [OF g]
  show "map GCPX gcps = map (\<lambda>k. coords ! k ! 0) [0, 1, 2, 3]" by (rule conjunct1)
  from make_gcps_uses_first_two [OF g]
  show "map GCPY gcps = map (\<lambda>k. coords ! k ! 1) [0, 1, 2, 3]" by (rule conjunct2)
qed

theorem coordinate_points_need_two_or_more_numeric_fields_witness:
  "(\<exists>p. parse_point example_float ''7,8,9,10,11'' = Inr p)
   \<and> parse_point example_float ''1,x'' =
       Inl (ValueError ''could not convert string to float: x'')
   \<and> (\<exists>fld\<in>set (split_on CHR '','' ''1,x'').
         example_float fld = Inl (ValueError ''could not convert string to float: x''))
   \<and> parse_point example_float ''7,8,9,10,11'' = Inr [7, 8, 9, 10, 11]
   \<and> length (split_on CHR '','' ''7,8,9,10,11'') = 5
   \<and> length [[1, 2], [3, 4, 0], [5, 6, 0, 0], [7, 8, 9, 10, 11 :: int]] = 4
   \<and> (\<exists>gcps. make_gcps [[1, 2], [3, 4, 0], [5, 6, 0, 0], [7, 8, 9, 10, 11 :: int]] 100 200
         = Inr gcps)
   \<and> \<not> (\<exists>gcps. make_gcps [[1], [3, 4, 0], [5, 6, 0, 0], [7, 8, 9, 10, 11 :: int]] 100 200
         = Inr gcps)
   \<and> map GCPX [\<lparr>GCPX = 1, GCPY = 2, GCPZ = 0, GCPPixel = 0, GCPLine = 200\<rparr>,
                \<lparr>GCPX = 3, GCPY = 4, GCPZ = 0, GCPPixel = 100, GCPLine = 200\<rparr>,
                \<lparr>GCPX = 5, GCPY = 6, GCPZ = 0, GCPPixel = 100, GCPLine = 0\<rparr>,
                \<lparr>GCPX = 7, GCPY = 8, GCPZ = 0, GCPPixel = 0, GCPLine = 0 :: int\<rparr>] =
       [1, 3, 5, 7 :: int]"
proof -
  let ?quad = "[[1, 2], [3, 4, 0], [5, 6, 0, 0], [7, 8, 9, 10, 11 :: int]]"
  let ?gcps = "[\<lparr>GCPX = 1, GCPY = 2, GCPZ = 0, GCPPixel = 0, GCPLine = 200\<rparr>,
                \<lparr>GCPX = 3, GCPY = 4, GCPZ = 0, GCPPixel = 100, GCPLine = 200\<rparr>,
                \<lparr>GCPX = 5, GCPY = 6, GCPZ = 0, GCPPixel = 100, GCPLine = 0\<rparr>,
                \<lparr>GCPX = 7, GCPY = 8, GCPZ = 0, GCPPixel = 0, GCPLine = 0 :: int\<rparr>]"
  have f: "split_on CHR '','' ''7,8,9,10,11'' = [''7'', ''8'', ''9'', ''10'', ''11'']"
    by code_simp
  have v: "example_float ''7'' = Inr 7" "example_float ''8'' = Inr 8" "example_float ''9'' = Inr 9"
    "example_float ''10'' = Inr 10" "example_float ''11'' = Inr 11"
    by code_simp+
  have bad: "parse_point example_float ''1,x'' =
               Inl (ValueError ''could not convert string to float: x'')"
    by code_simp
  have good: "parse_point example_float ''7,8,9,10,11'' = Inr [7, 8, 9, 10, 11]"
    by code_simp
  have built: "make_gcps ?quad 100 200 = Inr ?gcps"
    by code_simp
  have a: "\<exists>p. parse_point example_float ''7,8,9,10,11'' = Inr p"
    using coordinate_points_need_two_or_more_numeric_fields
      [where pf = example_float and tok = "''7,8,9,10,11''", THEN conjunct1]
    by (simp add: f v)
  have b: "\<exists>fld\<in>set (split_on CHR '','' ''1,x'').
             example_float fld = Inl (ValueError ''could not convert string to float: x'')"
    using coordinate_points_need_two_or_more_numeric_fields
      [where pf = example_float and tok = "''1,x''"
         and e = "ValueError ''could not convert string to float: x''",
       THEN conjunct2, THEN conjunct1] bad
    by blast
  have c: "length [7, 8, 9, 10, 11 :: int] = length (split_on CHR '','' ''7,8,9,10,11'')"
    using coordinate_points_need_two_or_more_numeric_fields
      [where pf = example_float and tok = "''7,8,9,10,11''" and p = "[7, 8, 9, 10, 11]",
       THEN conjunct2, THEN conjunct2, THEN conjunct1] good
    by blast
  have d: "\<exists>gcps. make_gcps ?quad 100 200 = Inr gcps"
    using coordinate_points_need_two_or_more_numeric_fields
      [where coords = ?quad and W = 100 and H = 200,
       THEN conjunct2, THEN conjunct2, THEN conjunct2, THEN conjunct1]
    by simp
  have e: "\<not> (\<exists>gcps. make_gcps [[1], [3, 4, 0], [5, 6, 0, 0], [7, 8, 9, 10, 11 :: int]] 100 200
         = Inr gcps)"
    using coordinate_points_need_two_or_more_numeric_fields
      [where coords = "[[1], [3, 4, 0], [5, 6, 0, 0], [7, 8, 9, 10, 11 :: int]]"
         and W = 100 and H = 200, THEN conjunct2, THEN conjunct2, THEN conjunct2, THEN conjunct1]
    by simp
  have g: "map GCPX ?gcps = map (\<lambda>k. ?quad ! k ! 0) [0, 1, 2, 3]"
    using coordinate_points_need_two_or_more_numeric_fields
      [where coords = ?quad and W = 100 and H = 200 and gcps = ?gcps,
       THEN conjunct2, THEN conjunct2, THEN conjunct2, THEN conjunct2] built
    by blast
  from a bad b good c d e g show ?thesis by simp
qed

text \<open>
  Claim C8 as stated fails: points of four fields are accepted, by the parser and by the
  whole conversion, which uses their first two fields. (The parser also accepts a token
  of one field; such a quadrilateral fails later, when its latitude is read.)
\<close>

theorem four_field_points_are_accepted_counterexample:
  "parse_coords example_float ''1,2,3,4 5,6,7,8 9,10,11,12 13,14,15,16'' =
     Inr [[1, 2, 3, 4], [5, 6, 7, 8], [9, 10, 11, 12], [13, 14, 15, 16]]
   \<and> make_gcps [[1, 2, 3, 4], [5, 6, 7, 8], [9, 10, 11, 12], [13, 14, 15, 16 :: int]] 100 200 =
     Inr [\<lparr>GCPX = 1, GCPY = 2, GCPZ = 0, GCPPixel = 0, GCPLine = 200\<rparr>,
          \<lparr>GCPX = 5, GCPY = 6, GCPZ = 0, GCPPixel = 100, GCPLine = 200\<rparr>,
          \<lparr>GCPX = 9, GCPY = 10, GCPZ = 0, GCPPixel = 100, GCPLine = 0\<rparr>,
          \<lparr>GCPX = 13, GCPY = 14, GCPZ = 0, GCPPixel = 0, GCPLine = 0\<rparr>]
   \<and> success_list (snd (convert_kmz
        (example_lib ''1,2,3,4 5,6,7,8 9,10,11,12 13,14,15,16'' True utf8_console) ''/s''
        ''/s/a.KMZ'' (initial_world Map.empty))) = [''a'']
   \<and> parse_coords example_float ''1 2,3 4,5 6,7'' = Inr [[1], [2, 3], [4, 5], [6, 7]]"
  by code_simp

subsection \<open>The batch run\<close>




text \<open>
  Claim C7. Take a run of \<^verbatim>\<open>main\<close> that starts with an empty success list, writes to a
  console that takes every line, converts at least one archive successfully, can open
  the log file for appending, and has each of its writes to the log taken (the names are
  valid text). Then the log file after the run is the log file as it
  was when the conversions ended, followed by one section: the header line with the
  timestamp, the successful base names one per line, and an empty line. No other file is
  touched by the logging. The names in the section are sorted and without duplicates,
  they are exactly the names on the success list, and they come out the same for every
  order in which the same conversions succeed.
\<close>

theorem successful_run_appends_one_sorted_log_section:
  assumes console: "\<forall>m. py_print lib m = None"
    and listing: "os_listdir lib (files w) script_dir = Inr names"
    and fresh: "success_list w = []"
    and succeeded: "success_list (snd (convert_all lib script_dir
                      (filter (\<lambda>f. endswith (lower f) ''.kmz'') names)
                      (record_call (ListDir script_dir) w))) \<noteq> []"
    and writable: "open_append lib
                     (files (snd (convert_all lib script_dir
                        (filter (\<lambda>f. endswith (lower f) ''.kmz'') names)
                        (record_call (ListDir script_dir) w))))
                     (log_file script_dir) = None"
    and written: "\<forall>s\<in>set (log_lines timestamp
                     (sorted_list_of_set (set (success_list (snd (convert_all lib script_dir
                        (filter (\<lambda>f. endswith (lower f) ''.kmz'') names)
                        (record_call (ListDir script_dir) w))))))).
                    file_write lib s = None"
  shows "let after = snd (convert_all lib script_dir
                       (filter (\<lambda>f. endswith (lower f) ''.kmz'') names)
                       (record_call (ListDir script_dir) w));
             sorted_names = sorted_list_of_set (set (success_list after));
             w' = snd (main lib script_dir timestamp w)
         in file_bytes (files w') (log_file script_dir) =
              file_bytes (files after) (log_file script_dir)
              @ ''\<newline>--- Conversion on '' @ timestamp @ '' ---\<newline>''
              @ concat (map (\<lambda>name. name @ ''\<newline>'') sorted_names) @ ''\<newline>''
          \<and> (\<forall>p. p \<noteq> log_file script_dir \<longrightarrow> files w' p = files after p)
          \<and> sorted sorted_names \<and> distinct sorted_names
          \<and> set sorted_names = set (success_list w')
          \<and> (\<forall>order. mset order = mset (success_list after) \<longrightarrow>
                sorted_list_of_set (set order) = sorted_names)"
proof -
  let ?kmz_files = "filter (\<lambda>f. endswith (lower f) ''.kmz'') names"
  let ?w0 = "record_call (ListDir script_dir) w"
  let ?w1 = "snd (convert_all lib script_dir ?kmz_files ?w0)"
  let ?w2 = "?w1\<lparr>stdout := stdout ?w1 @ summary script_dir ?w1\<rparr>"
  let ?w' = "snd (main lib script_dir timestamp w)"
  let ?names = "sorted_list_of_set (set (success_list ?w1))"
  have some: "?kmz_files \<noteq> []"
  proof
    assume "?kmz_files = []"
    then have "success_list ?w1 = success_list w" by (simp add: record_call_def ret_def)
    with fresh succeeded show False by simp
  qed
  have m: "?w' = snd (log_successful_conversions lib script_dir timestamp ?w2)"
    using main_with_archives [OF console listing some] by simp
  have s2: "success_list ?w2 \<noteq> []" using succeeded by simp
  have o2: "open_append lib (files ?w2) (log_file script_dir) = None" using writable by simp
  have l2: "\<forall>s\<in>set (log_lines timestamp (sorted_list_of_set (set (success_list ?w2)))).
              file_write lib s = None"
    using written by simp
  have f: "files ?w' = (files ?w1)(log_file script_dir \<mapsto>
              File (file_bytes (files ?w1) (log_file script_dir)
                    @ concat (log_lines timestamp ?names)))"
    unfolding m using log_appends_section [OF s2 o2 l2] by simp
  have lists: "success_list ?w' = success_list ?w1"
    by (simp add: m log_keeps_lists)
  have perm: "sorted_list_of_set (set order) = ?names"
    if "mset order = mset (success_list ?w1)" for order
    using that by (metis mset_eq_setD)
  have bytes: "file_bytes (files ?w') (log_file script_dir) =
              file_bytes (files ?w1) (log_file script_dir)
              @ ''\<newline>--- Conversion on '' @ timestamp @ '' ---\<newline>''
              @ concat (map (\<lambda>name. name @ ''\<newline>'') ?names) @ ''\<newline>''"
    unfolding f file_bytes_upd log_lines_def by simp
  have others: "\<forall>p. p \<noteq> log_file script_dir \<longrightarrow> files ?w' p = files ?w1 p"
    unfolding f by simp
  have order: "sorted ?names \<and> distinct ?names \<and> set ?names = set (success_list ?w')"
    unfolding lists by simp
  from bytes others order perm show ?thesis
    unfolding Let_def by blast
qed

theorem successful_run_appends_one_sorted_log_section_witness:
  "success_list (snd (convert_all (example_lib ''1,2 3,4 5,6 7,8'' True lenient_console) ''/s''
      (filter (\<lambda>f. endswith (lower f) ''.kmz'') [''b.kmz'', ''notes.txt'', ''bad.kmz'', ''a.KMZ''])
      (record_call (ListDir ''/s'') (initial_world Map.empty)))) = [''b'', ''a'']
   \<and> file_bytes (files (snd (main (example_lib ''1,2 3,4 5,6 7,8'' True lenient_console) ''/s''
        ''11/03/2026 10:00:00'' (initial_world Map.empty)))) (log_file ''/s'') =
       ''\<newline>--- Conversion on 11/03/2026 10:00:00 ---\<newline>a\<newline>b\<newline>\<newline>''
   \<and> files (snd (main (example_lib ''1,2 3,4 5,6 7,8'' True lenient_console) ''/s''
        ''11/03/2026 10:00:00'' (initial_world Map.empty))) ''/s/Converted GeoTIFFs/a.tif'' =
       Some (File ''GEOTIFF'')
   \<and> sorted_list_of_set (set [''a'', ''b'']) = [''a'', ''b'']"
proof -
  let ?lib = "example_lib ''1,2 3,4 5,6 7,8'' True lenient_console"
  let ?w = "initial_world Map.empty :: int world"
  let ?names = "[''b.kmz'', ''notes.txt'', ''bad.kmz'', ''a.KMZ'']"
  let ?after = "snd (convert_all ?lib ''/s'' (filter (\<lambda>f. endswith (lower f) ''.kmz'') ?names)
                  (record_call (ListDir ''/s'') ?w))"
  have console: "\<forall>m. py_print ?lib m = None"
    by (simp add: example_lib_def lenient_console_def)
  have listing: "os_listdir ?lib (files ?w) ''/s'' = Inr ?names"
    by (simp add: example_lib_def)
  have fresh: "success_list ?w = []" by simp
  have sl: "success_list ?after = [''b'', ''a'']" by code_simp
  have succeeded: "success_list ?after \<noteq> []" unfolding sl by simp
  have writable: "open_append ?lib (files ?after) (log_file ''/s'') = None"
    by (simp add: example_lib_def)
  have srt0: "sorted_list_of_set (set (success_list ?after)) = [''a'', ''b'']"
    unfolding sl
    by (simp add: sorted_list_of_set_sort_remdups less_char_def less_eq_char_def)
  have written: "\<forall>s\<in>set (log_lines ''11/03/2026 10:00:00''
                     (sorted_list_of_set (set (success_list ?after)))).
                   file_write ?lib s = None"
    unfolding srt0 by (simp add: log_lines_def example_lib_def)
  have old: "file_bytes (files ?after) (log_file ''/s'') = []" by code_simp
  have out: "files ?after ''/s/Converted GeoTIFFs/a.tif'' = Some (File ''GEOTIFF'')"
    by code_simp
  have other: "''/s/Converted GeoTIFFs/a.tif'' \<noteq> log_file ''/s''" by code_simp
  have srt: "sorted_list_of_set (set [''b'', ''a'']) = [''a'', ''b'']"
    by (simp add: sorted_list_of_set_sort_remdups less_char_def less_eq_char_def)
  note run = successful_run_appends_one_sorted_log_section
         [OF console listing fresh succeeded writable written, unfolded Let_def sl srt old]
  from run [THEN conjunct1]
  have written: "file_bytes (files (snd (main ?lib ''/s'' ''11/03/2026 10:00:00'' ?w)))
                   (log_file ''/s'') =
       ''\<newline>--- Conversion on 11/03/2026 10:00:00 ---\<newline>a\<newline>b\<newline>\<newline>''"
    by simp
  from run [THEN conjunct2, THEN conjunct1] other out
  have kept: "files (snd (main ?lib ''/s'' ''11/03/2026 10:00:00'' ?w))
                ''/s/Converted GeoTIFFs/a.tif'' = Some (File ''GEOTIFF'')"
    by simp
  have perm: "mset [''a'', ''b''] = mset [''b'', ''a'']" by simp
  from run [THEN conjunct2, THEN conjunct2, THEN conjunct2, THEN conjunct2, THEN conjunct2] perm
  have again: "sorted_list_of_set (set [''a'', ''b'']) = [''a'', ''b'']"
    by blast
  from sl written kept again show ?thesis by blast
qed

end
